theory Spec2Isabelle
  imports Complex_Main "HOL-Library.AList"
begin

section \<open>Data model\<close>

text \<open>
  The game keeps its objects in Python dictionaries, which iterate in insertion order.
  A dictionary is modelled as an association list: \<open>map_of\<close> is \<open>dict.get\<close>,
  \<open>AList.update\<close> is \<open>d[k] = v\<close> (in place for an existing key, appended for a new
  one) and \<open>AList.delete\<close> is \<open>del d[k]\<close>. Python floats (money, time, damage) are
  modelled as exact reals. Fields that none of the modelled operations reads or writes
  (names, colours, adjacency, fortification, speed, combat width) are left out. Where two
  classes share a field name the later one is prefixed: \<open>unit_template\<close> and
  \<open>unit_owner\<close> are \<open>Unit.template_id\<close> and \<open>Unit.owner\<close>,
  \<open>battle_province\<close> is \<open>Battle.province_id\<close>.
\<close>

record Country =
  code :: string
  capital_province_id :: int
  money :: real
  manpower :: int
  military_factories :: int
  civilian_factories :: int
  at_war_with :: "string list"
  allied_with :: "string list"
  war_scores :: "(string \<times> int) list"

record Province =
  province_id :: int
  terrain_type :: string
  development :: int
  population :: int
  owner :: "string option"
  base_income :: real

record UnitTemplate =
  template_id :: string
  category :: string
  attack :: int
  defense :: int
  max_hp :: int
  max_organization :: int
  cost :: real
  manpower_cost :: int

record Unit =
  unit_id :: int
  unit_template :: string
  unit_owner :: string
  location :: int
  current_hp :: int
  organization :: int
  experience :: int
  strength :: real
  is_moving :: bool
  move_target :: "int option"

record Battle =
  battle_province :: int
  attackers :: "string list"
  defenders :: "string list"
  duration :: real

record PeaceDemand =
  demand_type :: string
  target_data :: real
  war_score_cost :: int

record PeaceTreaty =
  from_country :: string
  to_country :: string
  demands :: "PeaceDemand list"
  total_war_score_cost :: int

text \<open>
  The state of the managers and systems that \<open>GameState\<close> ties together:
  \<open>CountryManager.countries\<close>, \<open>ProvinceManager.provinces\<close>,
  \<open>UnitTemplateManager.templates\<close>, \<open>MilitarySystem.units\<close>,
  \<open>CombatSystem.active_battles\<close> and its accumulator, the accumulator of
  \<open>EconomySystem\<close> and \<open>DiplomacySystem.pending_peace_treaties\<close>.
\<close>

record GameState =
  countries :: "(string \<times> Country) list"
  provinces :: "(int \<times> Province) list"
  templates :: "(string \<times> UnitTemplate) list"
  units :: "Unit list"
  active_battles :: "Battle list"
  combat_time_accumulator :: real
  economy_time_accumulator :: real
  pending_peace_treaties :: "PeaceTreaty list"

datatype py_error = IndexError | ZeroDivisionError | ValueError | SyntaxError

section \<open>Countries (country.py)\<close>

definition add_money :: "Country \<Rightarrow> real \<Rightarrow> Country" where
  "add_money c amount = c\<lparr>money := money c + amount\<rparr>"

definition spend_money :: "Country \<Rightarrow> real \<Rightarrow> Country \<times> bool" where
  "spend_money c amount =
     (if money c \<ge> amount then (c\<lparr>money := money c - amount\<rparr>, True) else (c, False))"

definition add_manpower :: "Country \<Rightarrow> int \<Rightarrow> Country" where
  "add_manpower c amount = c\<lparr>manpower := manpower c + amount\<rparr>"

definition recruit_manpower :: "Country \<Rightarrow> int \<Rightarrow> Country \<times> bool" where
  "recruit_manpower c amount =
     (if manpower c \<ge> amount then (c\<lparr>manpower := manpower c - amount\<rparr>, True) else (c, False))"

definition get_country :: "GameState \<Rightarrow> string \<Rightarrow> Country option" where
  "get_country s k = map_of (countries s) k"

text \<open>Writing back the country object stored under key \<open>k\<close> after it was mutated.\<close>

definition put_country :: "GameState \<Rightarrow> string \<Rightarrow> Country \<Rightarrow> GameState" where
  "put_country s k c = s\<lparr>countries := AList.update k c (countries s)\<rparr>"

section \<open>Provinces (province.py)\<close>

definition get_income :: "Province \<Rightarrow> real" where
  "get_income p = base_income p * real_of_int (development p)"

definition get_province :: "GameState \<Rightarrow> int \<Rightarrow> Province option" where
  "get_province s pid = map_of (provinces s) pid"

definition get_provinces_by_owner :: "GameState \<Rightarrow> string \<Rightarrow> Province list" where
  "get_provinces_by_owner s c = filter (\<lambda>p. owner p = Some c) (map snd (provinces s))"

section \<open>Economy (systems/economy.py)\<close>

definition update_interval :: real where
  "update_interval = 24"

definition collect_daily_income :: "GameState \<Rightarrow> GameState" where
  "collect_daily_income s =
     s\<lparr>countries := map (\<lambda>(k, c).
          (k, add_money c (sum_list (map get_income (get_provinces_by_owner s (code c))))))
        (countries s)\<rparr>"

definition collect_manpower :: "GameState \<Rightarrow> GameState" where
  "collect_manpower s =
     s\<lparr>countries := map (\<lambda>(k, c).
          (k, add_manpower c
                (sum_list (map (\<lambda>p. population p div 100) (get_provinces_by_owner s (code c))))))
        (countries s)\<rparr>"

text \<open>The two collections that one firing of the daily accrual runs.\<close>

definition daily_accrual :: "GameState \<Rightarrow> GameState" where
  "daily_accrual s = collect_manpower (collect_daily_income s)"

definition economy_update :: "GameState \<Rightarrow> real \<Rightarrow> GameState" where
  "economy_update s delta_time =
     (let s1 = s\<lparr>economy_time_accumulator := economy_time_accumulator s + delta_time\<rparr>
      in if economy_time_accumulator s1 \<ge> update_interval
         then daily_accrual
                (s1\<lparr>economy_time_accumulator := economy_time_accumulator s1 - update_interval\<rparr>)
         else s1)"

definition can_afford_unit :: "GameState \<Rightarrow> string \<Rightarrow> real \<Rightarrow> int \<Rightarrow> bool" where
  "can_afford_unit s country_code unit_cost mp_cost =
     (case get_country s country_code of
        None \<Rightarrow> False
      | Some c \<Rightarrow> money c \<ge> unit_cost \<and> manpower c \<ge> mp_cost)"

text \<open>
  \<open>spend_money(unit_cost) and recruit_manpower(manpower_cost)\<close>: the second call
  runs only when the first returned true, and the first has already mutated the country.
\<close>

definition purchase_unit :: "GameState \<Rightarrow> string \<Rightarrow> real \<Rightarrow> int \<Rightarrow> GameState \<times> bool" where
  "purchase_unit s country_code unit_cost mp_cost =
     (case get_country s country_code of
        None \<Rightarrow> (s, False)
      | Some c \<Rightarrow>
          (case spend_money c unit_cost of
             (c1, False) \<Rightarrow> (put_country s country_code c1, False)
           | (c1, True) \<Rightarrow>
               (case recruit_manpower c1 mp_cost of
                  (c2, ok) \<Rightarrow> (put_country s country_code c2, ok))))"

section \<open>War state of a country (country.py)\<close>

definition is_at_war_with :: "Country \<Rightarrow> string \<Rightarrow> bool" where
  "is_at_war_with c country_code = (country_code \<in> set (at_war_with c))"

definition country_declare_war :: "Country \<Rightarrow> string \<Rightarrow> Country" where
  "country_declare_war c country_code =
     (if country_code \<notin> set (at_war_with c)
      then c\<lparr>at_war_with := at_war_with c @ [country_code],
             war_scores := AList.update country_code 0 (war_scores c)\<rparr>
      else c)"

definition country_make_peace :: "Country \<Rightarrow> string \<Rightarrow> Country" where
  "country_make_peace c country_code =
     (if country_code \<in> set (at_war_with c)
      then (let c1 = c\<lparr>at_war_with := remove1 country_code (at_war_with c)\<rparr>
            in if map_of (war_scores c1) country_code \<noteq> None
               then c1\<lparr>war_scores := AList.delete country_code (war_scores c1)\<rparr>
               else c1)
      else c)"

text \<open>
  A method call on the country object registered under key \<open>k\<close>: the object is
  mutated in place, so a later lookup of the same key sees the change. Nothing happens
  when the key is unknown.
\<close>

definition modify_country :: "GameState \<Rightarrow> string \<Rightarrow> (Country \<Rightarrow> Country) \<Rightarrow> GameState" where
  "modify_country s k f =
     (case get_country s k of None \<Rightarrow> s | Some c \<Rightarrow> put_country s k (f c))"

definition modify_province :: "GameState \<Rightarrow> int \<Rightarrow> (Province \<Rightarrow> Province) \<Rightarrow> GameState" where
  "modify_province s k f =
     (case get_province s k of
        None \<Rightarrow> s
      | Some p \<Rightarrow> s\<lparr>provinces := AList.update k (f p) (provinces s)\<rparr>)"

section \<open>Diplomacy (systems/diplomacy.py)\<close>

definition declare_war :: "GameState \<Rightarrow> string \<Rightarrow> string \<Rightarrow> GameState \<times> bool" where
  "declare_war s attacker defender =
     (case (get_country s attacker, get_country s defender) of
        (Some _, Some _) \<Rightarrow>
          (modify_country
             (modify_country s attacker (\<lambda>c. country_declare_war c defender))
             defender (\<lambda>c. country_declare_war c attacker),
           True)
      | _ \<Rightarrow> (s, False))"

definition make_peace :: "GameState \<Rightarrow> string \<Rightarrow> string \<Rightarrow> GameState" where
  "make_peace s country1 country2 =
     (case (get_country s country1, get_country s country2) of
        (Some _, Some _) \<Rightarrow>
          modify_country
            (modify_country s country1 (\<lambda>c. country_make_peace c country2))
            country2 (\<lambda>c. country_make_peace c country1)
      | _ \<Rightarrow> s)"

text \<open>
  The payload \<open>target_data\<close> of a demand is a Python number: a province id for an
  annexation, an amount of money for reparations. As a dictionary key an int and the
  float equal to it are the same key, so a lookup by a number finds the province whose
  id equals it.
\<close>

definition get_province_num :: "GameState \<Rightarrow> real \<Rightarrow> (int \<times> Province) option" where
  "get_province_num s x =
     (if real_of_int \<lfloor>x\<rfloor> = x
      then map_option (\<lambda>p. (\<lfloor>x\<rfloor>, p)) (get_province s \<lfloor>x\<rfloor>)
      else None)"

text \<open>Python's \<open>int(x)\<close> on a float: truncation towards zero.\<close>

definition py_int :: "real \<Rightarrow> int" where
  "py_int x = (if x \<ge> 0 then \<lfloor>x\<rfloor> else \<lceil>x\<rceil>)"

definition calculate_demand_cost :: "GameState \<Rightarrow> string \<Rightarrow> real \<Rightarrow> int" where
  "calculate_demand_cost s dtype tdata =
     (if dtype = ''annex_province'' then
        (case get_province_num s tdata of
           Some (_, p) \<Rightarrow> 5 + development p * 2
         | None \<Rightarrow> 10)
      else if dtype = ''war_reparations'' then max 5 (py_int (tdata / 500))
      else if dtype = ''release_nation'' then 30
      else if dtype = ''military_access'' then 5
      else 10)"

definition create_peace_demand :: "GameState \<Rightarrow> string \<Rightarrow> real \<Rightarrow> PeaceDemand" where
  "create_peace_demand s dtype tdata =
     \<lparr>demand_type = dtype, target_data = tdata,
      war_score_cost = calculate_demand_cost s dtype tdata\<rparr>"

definition propose_peace_treaty ::
  "GameState \<Rightarrow> string \<Rightarrow> string \<Rightarrow> PeaceDemand list \<Rightarrow> GameState \<times> PeaceTreaty option"
where
  "propose_peace_treaty s from_c to_c ds =
     (let treaty = \<lparr>from_country = from_c, to_country = to_c, demands = ds,
                     total_war_score_cost = sum_list (map war_score_cost ds)\<rparr>
      in case get_country s from_c of
           None \<Rightarrow> (s, None)
         | Some proposer \<Rightarrow>
             (case map_of (war_scores proposer) to_c of
                None \<Rightarrow> (s, None)
              | Some score \<Rightarrow>
                  if score \<ge> total_war_score_cost treaty
                  then (s\<lparr>pending_peace_treaties := pending_peace_treaties s @ [treaty]\<rparr>,
                        Some treaty)
                  else (s, None)))"

definition execute_demand :: "GameState \<Rightarrow> string \<Rightarrow> string \<Rightarrow> PeaceDemand \<Rightarrow> GameState" where
  "execute_demand s winner loser d =
     (if demand_type d = ''annex_province'' then
        (case get_province_num s (target_data d) of
           Some (k, p) \<Rightarrow>
             if owner p = Some loser then modify_province s k (\<lambda>p. p\<lparr>owner := Some winner\<rparr>)
             else s
         | None \<Rightarrow> s)
      else if demand_type d = ''war_reparations'' then
        (case (get_country s loser, get_country s winner) of
           (Some loser_country, Some _) \<Rightarrow>
             (let amount = min (target_data d) (money loser_country)
              in modify_country
                   (modify_country s loser (\<lambda>c. fst (spend_money c amount)))
                   winner (\<lambda>c. add_money c amount))
         | _ \<Rightarrow> s)
      else s)"

definition execute_demands_list ::
  "GameState \<Rightarrow> string \<Rightarrow> string \<Rightarrow> PeaceDemand list \<Rightarrow> GameState"
where
  "execute_demands_list s winner loser ds = foldl (\<lambda>s d. execute_demand s winner loser d) s ds"

definition accept_peace_treaty :: "GameState \<Rightarrow> PeaceTreaty \<Rightarrow> GameState \<times> bool" where
  "accept_peace_treaty s treaty =
     (if treaty \<notin> set (pending_peace_treaties s) then (s, False)
      else
        (let s1 = foldl (\<lambda>s d. execute_demand s (from_country treaty) (to_country treaty) d)
                    s (demands treaty);
             s2 = make_peace s1 (from_country treaty) (to_country treaty)
         in (s2\<lparr>pending_peace_treaties := remove1 treaty (pending_peace_treaties s2)\<rparr>, True)))"

text \<open>
  One entry \<open>(enemy_code, war_score)\<close> of the snapshot of a country's war scores, the
  body of the inner loop of \<open>auto_peace_at_100\<close>.
\<close>

definition auto_peace_pair :: "GameState \<Rightarrow> string \<Rightarrow> string \<times> int \<Rightarrow> GameState" where
  "auto_peace_pair s country_code entry =
     (case entry of (enemy_code, war_score) \<Rightarrow>
        if war_score \<ge> 100 then
          (case get_country s enemy_code of
             None \<Rightarrow> s
           | Some _ \<Rightarrow>
               (let ds = map (\<lambda>p. create_peace_demand s ''annex_province''
                                      (real_of_int (province_id p)))
                             (get_provinces_by_owner s enemy_code)
                in make_peace (execute_demands_list s country_code enemy_code ds)
                     country_code enemy_code))
        else s)"

text \<open>
  The body of the outer loop, for the country object registered under key \<open>k\<close>: the
  snapshot \<open>list(country.war_scores.items())\<close> is taken when its turn comes.
\<close>

definition auto_peace_country :: "GameState \<Rightarrow> string \<Rightarrow> GameState" where
  "auto_peace_country s k =
     (case get_country s k of
        None \<Rightarrow> s
      | Some c \<Rightarrow> foldl (\<lambda>s e. auto_peace_pair s (code c) e) s (war_scores c))"

definition auto_peace_at_100 :: "GameState \<Rightarrow> GameState" where
  "auto_peace_at_100 s = foldl auto_peace_country s (map fst (countries s))"

section \<open>Units (unit.py)\<close>

definition get_template :: "GameState \<Rightarrow> string \<Rightarrow> UnitTemplate option" where
  "get_template s tid = map_of (templates s) tid"

definition get_effective_attack :: "Unit \<Rightarrow> UnitTemplate \<Rightarrow> real" where
  "get_effective_attack u t =
     real_of_int (attack t) * strength u * (real_of_int (organization u) / 100)"

definition get_effective_defense :: "Unit \<Rightarrow> UnitTemplate \<Rightarrow> real" where
  "get_effective_defense u t =
     real_of_int (defense t) * strength u * (real_of_int (organization u) / 100)"

text \<open>
  \<open>take_damage\<close>: both decrements go through \<open>int(...)\<close>; the division that
  recomputes the strength raises when the template has \<open>max_hp = 0\<close>.
\<close>

definition take_damage :: "Unit \<Rightarrow> real \<Rightarrow> UnitTemplate \<Rightarrow> py_error + Unit" where
  "take_damage u damage t =
     (let hp_damage = damage * 0.5;
          org_damage = damage * 0.5;
          hp = max 0 (current_hp u - py_int hp_damage);
          org = max 0 (organization u - py_int org_damage)
      in if max_hp t = 0 then Inl ZeroDivisionError
         else Inr (u\<lparr>current_hp := hp, organization := org,
                      strength := real_of_int hp / real_of_int (max_hp t)\<rparr>))"

definition is_destroyed :: "Unit \<Rightarrow> bool" where
  "is_destroyed u = (current_hp u \<le> 0)"

definition should_retreat :: "Unit \<Rightarrow> bool" where
  "should_retreat u = (organization u \<le> 20)"

section \<open>Military (systems/military.py)\<close>

text \<open>
  The truth value of an \<open>Optional[int]\<close> in a condition: \<open>None\<close> and \<open>0\<close> are
  both false.
\<close>

definition truthy :: "int option \<Rightarrow> bool" where
  "truthy x = (case x of None \<Rightarrow> False | Some n \<Rightarrow> n \<noteq> 0)"

definition order_move :: "Unit \<Rightarrow> int \<Rightarrow> Unit" where
  "order_move u destination = u\<lparr>is_moving := True, move_target := Some destination\<rparr>"

definition move_unit :: "Unit \<Rightarrow> Unit" where
  "move_unit u =
     (case move_target u of
        None \<Rightarrow> u
      | Some t \<Rightarrow> if t \<noteq> 0 then u\<lparr>location := t, is_moving := False, move_target := None\<rparr>
                  else u)"

text \<open>
  The loop of \<open>MilitarySystem.update\<close> over the copy of the roster. \<open>kept\<close> holds
  the units already visited that are still in the roster, the second list the units not
  yet visited. The visited unit is mutated in place; \<open>self.units.remove(unit)\<close> then
  deletes the first roster entry equal to it, which is the unit itself or an equal unit
  before it.
\<close>

fun update_loop :: "Unit list \<Rightarrow> Unit list \<Rightarrow> Unit list" where
  "update_loop kept [] = kept"
| "update_loop kept (u # rest) =
     (let u1 = (if is_moving u \<and> truthy (move_target u) then move_unit u else u)
      in if is_destroyed u1 then update_loop (remove1 u1 (kept @ [u1])) rest
         else update_loop (kept @ [u1]) rest)"

definition military_update :: "GameState \<Rightarrow> real \<Rightarrow> GameState" where
  "military_update s delta_time = s\<lparr>units := update_loop [] (units s)\<rparr>"

definition get_units_in_province :: "GameState \<Rightarrow> int \<Rightarrow> Unit list" where
  "get_units_in_province s pid = filter (\<lambda>u. location u = pid) (units s)"

text \<open>
  The units of a country in a province, as positions in the roster: the combat system
  mutates the units it finds, so it needs to know which roster entries they are.
\<close>

definition units_in_province_by_owner :: "GameState \<Rightarrow> int \<Rightarrow> string \<Rightarrow> nat list" where
  "units_in_province_by_owner s pid c =
     filter (\<lambda>i. location (units s ! i) = pid \<and> unit_owner (units s ! i) = c)
       [0 ..< length (units s)]"

section \<open>Combat (systems/combat.py)\<close>

definition combat_update_interval :: real where
  "combat_update_interval = 1"

definition has_battle_in_province :: "GameState \<Rightarrow> int \<Rightarrow> bool" where
  "has_battle_in_province s pid = list_ex (\<lambda>b. battle_province b = pid) (active_battles s)"

definition start_battle :: "GameState \<Rightarrow> int \<Rightarrow> string \<Rightarrow> string \<Rightarrow> GameState" where
  "start_battle s pid attacker defender =
     s\<lparr>active_battles := active_battles s @
          [\<lparr>battle_province = pid, attackers = [attacker], defenders = [defender],
            duration = 0\<rparr>]\<rparr>"

text \<open>The dictionary \<open>by_owner\<close>: owners in the order in which their first unit is met.\<close>

definition group_by_owner :: "Unit list \<Rightarrow> (string \<times> Unit list) list" where
  "group_by_owner us =
     foldl (\<lambda>m u.
        (let m1 = (if map_of m (unit_owner u) = None then AList.update (unit_owner u) [] m
                   else m)
         in case map_of m1 (unit_owner u) of
              None \<Rightarrow> m1
            | Some l \<Rightarrow> AList.update (unit_owner u) (l @ [u]) m1))
       [] us"

text \<open>\<open>for i, owner1 in enumerate(owners): for owner2 in owners[i+1:]\<close>.\<close>

fun owner_pairs :: "string list \<Rightarrow> (string \<times> string) list" where
  "owner_pairs [] = []"
| "owner_pairs (owner1 # rest) = map (Pair owner1) rest @ owner_pairs rest"

definition check_pair :: "int \<Rightarrow> GameState \<Rightarrow> string \<times> string \<Rightarrow> GameState" where
  "check_pair pid s pair =
     (case pair of (owner1, owner2) \<Rightarrow>
        (case (get_country s owner1, get_country s owner2) of
           (Some country1, Some _) \<Rightarrow>
             if is_at_war_with country1 owner2
             then (if \<not> has_battle_in_province s pid then start_battle s pid owner1 owner2
                   else s)
             else s
         | _ \<Rightarrow> s))"

definition detect_in_province :: "GameState \<Rightarrow> Province \<Rightarrow> GameState" where
  "detect_in_province s p =
     (let us = get_units_in_province s (province_id p)
      in if length us < 2 then s
         else foldl (check_pair (province_id p)) s
                (owner_pairs (map fst (group_by_owner us))))"

definition detect_battles :: "GameState \<Rightarrow> GameState" where
  "detect_battles s = foldl detect_in_province s (map snd (provinces s))"

definition calculate_combat_power :: "GameState \<Rightarrow> Unit list \<Rightarrow> bool \<Rightarrow> real" where
  "calculate_combat_power s us is_attacking =
     foldl (\<lambda>total u.
        (case get_template s (unit_template u) of
           None \<Rightarrow> total
         | Some t \<Rightarrow> total + (if is_attacking then get_effective_attack u t
                                else get_effective_defense u t)))
       0 us"

definition get_terrain_modifier :: "string \<Rightarrow> real" where
  "get_terrain_modifier terrain =
     (if terrain = ''plains'' then 1.0
      else if terrain = ''hills'' then 1.2
      else if terrain = ''mountains'' then 1.5
      else if terrain = ''forest'' then 1.3
      else if terrain = ''urban'' then 1.4
      else if terrain = ''marsh'' then 1.1
      else 1.0)"

text \<open>One unit of the list handed to \<open>_apply_damage_to_units\<close>, by roster position.\<close>

definition damage_unit :: "real \<Rightarrow> py_error + GameState \<Rightarrow> nat \<Rightarrow> py_error + GameState" where
  "damage_unit damage_per_unit r i =
     (case r of
        Inl e \<Rightarrow> Inl e
      | Inr s \<Rightarrow>
          (case get_template s (unit_template (units s ! i)) of
             None \<Rightarrow> Inr s
           | Some t \<Rightarrow>
               (case take_damage (units s ! i) damage_per_unit t of
                  Inl e \<Rightarrow> Inl e
                | Inr u1 \<Rightarrow> Inr (s\<lparr>units := (units s)[i := u1]\<rparr>))))"

definition apply_damage_to_units :: "GameState \<Rightarrow> nat list \<Rightarrow> real \<Rightarrow> py_error + GameState" where
  "apply_damage_to_units s idxs total_damage =
     (if idxs = [] then Inr s
      else foldl (damage_unit (total_damage / real (length idxs))) (Inr s) idxs)"

definition award_war_score :: "GameState \<Rightarrow> string \<Rightarrow> string \<Rightarrow> int \<Rightarrow> GameState" where
  "award_war_score s winner loser points =
     (case get_country s winner of
        None \<Rightarrow> s
      | Some c \<Rightarrow>
          (case map_of (war_scores c) loser of
             None \<Rightarrow> s
           | Some v \<Rightarrow>
               modify_country s winner
                 (\<lambda>c. c\<lparr>war_scores :=
                          AList.update loser (min 100 (v + points))
                            (AList.update loser (v + points) (war_scores c))\<rparr>)))"

text \<open>
  \<open>combat.py\<close> does not compile. The condition of the defender branch of
  \<open>end_battle\<close> (line 211) is written
  \<open>if winner and old_owner := battle.attackers[0]:\<close>, and an assignment expression
  cannot stand after \<open>and\<close> without brackets. Python compiles a module as a whole,
  so \<open>import src.systems.combat\<close> raises \<open>SyntaxError\<close> (and with it
  \<open>src.game\<close>, which imports it), and no method of \<open>CombatSystem\<close> can be
  called. \<open>load_combat\<close> is that import. The methods that can raise are translated as
  they are written and start with the import; the statement that does not parse stands for
  the same error. Battle detection and the helpers that only compute are given as they are
  written: they say what the module's text does once it loads.
\<close>

definition load_combat :: "py_error + unit" where
  "load_combat = Inl SyntaxError"

text \<open>
  \<open>end_battle\<close>. A country code is true in a condition when it is not the empty
  string. \<open>list.remove\<close> raises \<open>ValueError\<close> when the battle is not in the list.
\<close>

definition remove_battle :: "GameState \<Rightarrow> Battle \<Rightarrow> GameState" where
  "remove_battle s b = s\<lparr>active_battles := remove1 b (active_battles s)\<rparr>"

definition end_battle ::
  "GameState \<Rightarrow> Battle \<Rightarrow> Unit list \<Rightarrow> Unit list \<Rightarrow> py_error + GameState"
where
  "end_battle s b remaining_attackers remaining_defenders =
     (case load_combat of
        Inl e \<Rightarrow> Inl e
      | Inr _ \<Rightarrow>
     (case get_province s (battle_province b) of
        None \<Rightarrow>
          if b \<in> set (active_battles s) then Inr (remove_battle s b) else Inl ValueError
      | Some province \<Rightarrow>
          (case
             (if remaining_attackers \<noteq> [] \<and> remaining_defenders = [] then
                (case attackers b of
                   [] \<Rightarrow> Inr s
                 | winner # _ \<Rightarrow>
                     if winner \<noteq> [] \<and> owner province \<noteq> Some winner then
                       (let s1 = modify_province s (battle_province b)
                                   (\<lambda>p. p\<lparr>owner := Some winner\<rparr>)
                        in case owner province of
                             None \<Rightarrow> Inr s1
                           | Some old_owner \<Rightarrow>
                               if old_owner \<noteq> [] then Inr (award_war_score s1 winner old_owner 5)
                               else Inr s1)
                     else Inr s)
              else if remaining_defenders \<noteq> [] \<and> remaining_attackers = [] then
                Inl SyntaxError
              else Inr s)
           of
             Inl e \<Rightarrow> Inl e
           | Inr s2 \<Rightarrow>
               Inr (if b \<in> set (active_battles s2) then remove_battle s2 b else s2))))"

text \<open>
  One tick of a battle. The two draws of \<open>random.uniform(0.7, 1.3)\<close> are the
  parameters \<open>attack_luck\<close> and \<open>defense_luck\<close>.
\<close>

definition resolve_battle_tick ::
  "GameState \<Rightarrow> Battle \<Rightarrow> real \<Rightarrow> real \<Rightarrow> py_error + GameState"
where
  "resolve_battle_tick s b attack_luck defense_luck =
     (case load_combat of
        Inl e \<Rightarrow> Inl e
      | Inr _ \<Rightarrow>
     (case get_province s (battle_province b) of
        None \<Rightarrow>
          if b \<in> set (active_battles s) then Inr (remove_battle s b) else Inl ValueError
      | Some province \<Rightarrow>
          (let attacker_units =
                 concat (map (units_in_province_by_owner s (battle_province b)) (attackers b));
               defender_units =
                 concat (map (units_in_province_by_owner s (battle_province b)) (defenders b))
           in if attacker_units = [] \<or> defender_units = [] then
                end_battle s b (map (\<lambda>i. units s ! i) attacker_units)
                  (map (\<lambda>i. units s ! i) defender_units)
              else
                (let attack_power =
                       calculate_combat_power s (map (\<lambda>i. units s ! i) attacker_units) True;
                     defense_power =
                       calculate_combat_power s (map (\<lambda>i. units s ! i) defender_units) False
                         * get_terrain_modifier (terrain_type province);
                     attack_roll = attack_power * attack_luck;
                     defense_roll = defense_power * defense_luck
                 in if attack_roll > defense_roll then
                      (case apply_damage_to_units s defender_units
                              ((attack_roll - defense_roll) * 0.5) of
                         Inl e \<Rightarrow> Inl e
                       | Inr s1 \<Rightarrow> apply_damage_to_units s1 attacker_units (defense_roll * 0.2))
                    else
                      (case apply_damage_to_units s attacker_units
                              ((defense_roll - attack_roll) * 0.5) of
                         Inl e \<Rightarrow> Inl e
                       | Inr s1 \<Rightarrow> apply_damage_to_units s1 defender_units (attack_roll * 0.2))))))"

text \<open>
  The loop of \<open>CombatSystem.update\<close> over the copy of the battle list. Battles are
  objects: \<open>battle.duration += ...\<close> changes the visited battle wherever it now
  stands in the list. The first \<open>n\<close> entries of the list are the battles already
  visited that are still listed, the visited battle \<open>b\<close> stands at position \<open>n\<close>,
  the battles not yet visited follow. A tick removes at most one entry, the first one equal
  to \<open>b\<close>: when that is an earlier, equal battle, \<open>b\<close> itself moves down to
  position \<open>n - 1\<close> and stays listed. \<open>luck k\<close> is the pair of random draws for the
  \<open>k\<close>-th battle of the copy.
\<close>

definition bump_at :: "GameState \<Rightarrow> nat \<Rightarrow> GameState" where
  "bump_at s i =
     s\<lparr>active_battles := (active_battles s)
          [i := (active_battles s ! i)
                  \<lparr>duration := duration (active_battles s ! i) + combat_update_interval\<rparr>]\<rparr>"

fun resolve_all ::
  "GameState \<Rightarrow> nat \<Rightarrow> nat \<Rightarrow> Battle list \<Rightarrow> (nat \<Rightarrow> real \<times> real) \<Rightarrow> py_error + GameState"
where
  "resolve_all s n k [] luck = Inr s"
| "resolve_all s n k (b # rest) luck =
     (case resolve_battle_tick s b (fst (luck k)) (snd (luck k)) of
        Inl e \<Rightarrow> Inl e
      | Inr s1 \<Rightarrow>
          if length (active_battles s1) = length (active_battles s)
          then resolve_all (bump_at s1 n) (Suc n) (Suc k) rest luck
          else if b \<in> set (take n (active_battles s))
          then resolve_all (bump_at s1 (n - 1)) n (Suc k) rest luck
          else resolve_all s1 n (Suc k) rest luck)"

definition combat_update ::
  "GameState \<Rightarrow> real \<Rightarrow> (nat \<Rightarrow> real \<times> real) \<Rightarrow> py_error + GameState"
where
  "combat_update s delta_time luck =
     (case load_combat of
        Inl e \<Rightarrow> Inl e
      | Inr _ \<Rightarrow>
     (let s1 = s\<lparr>combat_time_accumulator := combat_time_accumulator s + delta_time\<rparr>
      in if combat_time_accumulator s1 \<ge> combat_update_interval then
           (let s2 = detect_battles
                       (s1\<lparr>combat_time_accumulator :=
                             combat_time_accumulator s1 - combat_update_interval\<rparr>)
            in resolve_all s2 0 0 (active_battles s2) luck)
         else Inr s1))"

section \<open>Observations and invariants of the war state\<close>

text \<open>What country \<open>a\<close> (looked up by key) records about \<open>b\<close>.\<close>

definition at_war :: "GameState \<Rightarrow> string \<Rightarrow> string \<Rightarrow> bool" where
  "at_war s a b = (case get_country s a of None \<Rightarrow> False | Some c \<Rightarrow> is_at_war_with c b)"

definition war_score_of :: "GameState \<Rightarrow> string \<Rightarrow> string \<Rightarrow> int option" where
  "war_score_of s a b =
     (case get_country s a of None \<Rightarrow> None | Some c \<Rightarrow> map_of (war_scores c) b)"

definition war_symmetric :: "GameState \<Rightarrow> bool" where
  "war_symmetric s = (\<forall>a b. at_war s a b = at_war s b a)"

text \<open>
  The invariant that makes symmetry inductive: no at-war list names a country twice
  (\<open>list.remove\<close> deletes one occurrence only), every war-score key is in the at-war
  list (the score is deleted only together with the list entry), and wars are only with
  registered countries.
\<close>

definition war_lists_ok :: "Country \<Rightarrow> bool" where
  "war_lists_ok c =
     (distinct (at_war_with c) \<and> fst ` set (war_scores c) \<subseteq> set (at_war_with c))"

definition war_inv :: "GameState \<Rightarrow> bool" where
  "war_inv s =
     ((\<forall>k c. get_country s k = Some c \<longrightarrow>
          war_lists_ok c \<and> (\<forall>e \<in> set (at_war_with c). get_country s e \<noteq> None))
      \<and> (\<forall>a b. at_war s a b = at_war s b a))"

text \<open>
  Every operation of the game other than \<open>declare_war\<close> and \<open>make_peace\<close> leaves
  the registered countries, their at-war lists and the keys of their war scores as they
  are (the combat system changes the value of an existing score only).
\<close>

definition same_war_state :: "GameState \<Rightarrow> GameState \<Rightarrow> bool" where
  "same_war_state s s' =
     (\<forall>k. rel_option (\<lambda>c c'. at_war_with c' = at_war_with c
                          \<and> map fst (war_scores c') = map fst (war_scores c))
            (get_country s k) (get_country s' k))"

text \<open>
  What \<open>declare_war\<close> and \<open>make_peace\<close> leave alone. \<open>war_frame\<close> is a
  country without its at-war list and war scores. In \<open>only_war_changes s s'\<close> the
  registry of \<open>s'\<close> has the keys of \<open>s\<close> in the same order, each with the same
  country up to at-war list and war scores, and every other part of the state is the same.
\<close>

definition war_frame :: "Country \<Rightarrow> Country" where
  "war_frame c = c\<lparr>at_war_with := [], war_scores := []\<rparr>"

definition only_war_changes :: "GameState \<Rightarrow> GameState \<Rightarrow> bool" where
  "only_war_changes s s' =
     (map (\<lambda>(k, c). (k, war_frame c)) (countries s')
        = map (\<lambda>(k, c). (k, war_frame c)) (countries s)
      \<and> provinces s' = provinces s \<and> templates s' = templates s \<and> units s' = units s
      \<and> active_battles s' = active_battles s
      \<and> combat_time_accumulator s' = combat_time_accumulator s
      \<and> economy_time_accumulator s' = economy_time_accumulator s
      \<and> pending_peace_treaties s' = pending_peace_treaties s)"

text \<open>
  The states of a game: loaded countries start with no wars and no scores; from there any
  sequence of war declarations, peace settlements and other operations may run.
\<close>

inductive war_reachable :: "GameState \<Rightarrow> bool" where
  fresh: "\<forall>k c. get_country s k = Some c \<longrightarrow> at_war_with c = [] \<and> war_scores c = []
          \<Longrightarrow> war_reachable s"
| declared: "war_reachable s \<Longrightarrow> war_reachable (fst (declare_war s a b))"
| peace: "war_reachable s \<Longrightarrow> war_reachable (make_peace s a b)"
| other: "war_reachable s \<Longrightarrow> same_war_state s s' \<Longrightarrow> war_reachable s'"

section \<open>Observations of forced peace\<close>

text \<open>What an annexation by \<open>winner\<close> from \<open>loser\<close> does to one province.\<close>

definition transfer :: "string \<Rightarrow> string \<Rightarrow> Province \<Rightarrow> Province" where
  "transfer winner loser p = (if owner p = Some loser then p\<lparr>owner := Some winner\<rparr> else p)"

text \<open>
  The state \<open>s\<close> of an invocation of \<open>auto_peace_at_100\<close> that started in
  \<open>s0\<close>: the invariants of the war state still hold, every country is registered
  under its code, its war scores are a dictionary and have only lost entries, and provinces
  are registered under their ids.
\<close>

definition tracks :: "GameState \<Rightarrow> GameState \<Rightarrow> bool" where
  "tracks s0 s =
     (war_inv s
      \<and> (\<forall>k. rel_option (\<lambda>c0 c. code c = k \<and> distinct (map fst (war_scores c))
                               \<and> set (war_scores c) \<subseteq> set (war_scores c0))
                (get_country s0 k) (get_country s k))
      \<and> (\<forall>k p. get_province s k = Some p \<longrightarrow> province_id p = k))"

text \<open>An entry of a war-score snapshot that leaves \<open>a\<close> and \<open>b\<close> alone.\<close>

definition harmless :: "string \<Rightarrow> string \<Rightarrow> string \<times> int \<Rightarrow> bool" where
  "harmless a b e = (100 \<le> snd e \<longrightarrow> fst e \<noteq> a \<and> fst e \<noteq> b)"

text \<open>The provinces that \<open>b\<close> owned in \<open>s0\<close> are owned by \<open>x\<close> in \<open>s\<close>.\<close>

definition owned_by :: "GameState \<Rightarrow> GameState \<Rightarrow> string \<Rightarrow> string \<Rightarrow> bool" where
  "owned_by s0 s b x =
     (\<forall>k p. get_province s0 k = Some p \<longrightarrow> owner p = Some b \<longrightarrow>
        map_option owner (get_province s k) = Some (Some x))"

text \<open>Before and after the turn of the pair \<open>(a, b)\<close>.\<close>

definition forced_pre :: "GameState \<Rightarrow> string \<Rightarrow> string \<Rightarrow> GameState \<Rightarrow> bool" where
  "forced_pre s0 a b s =
     (tracks s0 s \<and> (\<exists>sc. war_score_of s a b = Some sc \<and> 100 \<le> sc) \<and> owned_by s0 s b b)"

definition forced_post :: "GameState \<Rightarrow> string \<Rightarrow> string \<Rightarrow> GameState \<Rightarrow> bool" where
  "forced_post s0 a b s =
     (tracks s0 s \<and> \<not> at_war s a b \<and> \<not> at_war s b a
      \<and> war_score_of s a b = None \<and> war_score_of s b a = None \<and> owned_by s0 s b a)"

text \<open>
  No country holds a war score of 100 or more against \<open>a\<close>, and none but \<open>a\<close>
  holds one against \<open>b\<close>.
\<close>

definition unchallenged :: "GameState \<Rightarrow> string \<Rightarrow> string \<Rightarrow> bool" where
  "unchallenged s a b =
     (\<forall>k c e v. get_country s k = Some c \<longrightarrow> (e, v) \<in> set (war_scores c) \<longrightarrow> 100 \<le> v \<longrightarrow>
        e \<noteq> a \<and> (e = b \<longrightarrow> k = a))"

section \<open>Observations of the military update\<close>

text \<open>What a visit of the update loop does to one unit before the destruction check.\<close>

definition visit :: "Unit \<Rightarrow> Unit" where
  "visit u = (if is_moving u \<and> truthy (move_target u) then move_unit u else u)"


section \<open>Observations and invariants of the battle list\<close>







section \<open>Construction and sample data (data_loader.py)\<close>

text \<open>The dataclass constructors, with the defaults of the fields that callers leave out.\<close>

definition new_country :: "string \<Rightarrow> int \<Rightarrow> real \<Rightarrow> int \<Rightarrow> Country" where
  "new_country c cap m mp =
     \<lparr>code = c, capital_province_id = cap, money = m, manpower = mp,
      military_factories = 10, civilian_factories = 10,
      at_war_with = [], allied_with = [], war_scores = []\<rparr>"

definition new_province :: "int \<Rightarrow> string \<Rightarrow> int \<Rightarrow> int \<Rightarrow> string option \<Rightarrow> Province" where
  "new_province i t d p ow =
     \<lparr>province_id = i, terrain_type = t, development = d, population = p,
      owner = ow, base_income = 10\<rparr>"

text \<open>\<open>GameState.__init__\<close> followed by \<open>initialize_systems\<close>, on loaded data.\<close>

definition new_game ::
  "(string \<times> Country) list \<Rightarrow> (int \<times> Province) list \<Rightarrow> (string \<times> UnitTemplate) list \<Rightarrow> GameState"
where
  "new_game cs ps ts =
     \<lparr>countries = cs, provinces = ps, templates = ts, units = [], active_battles = [],
      combat_time_accumulator = 0, economy_time_accumulator = 0,
      pending_peace_treaties = []\<rparr>"

text \<open>A single country that owns Berlin and has money for a unit but not the men.\<close>

definition short_of_men :: GameState where
  "short_of_men =
     new_game [(''GER'', new_country ''GER'' 1 2000 500)]
              [(1, new_province 1 ''plains'' 5 5000 (Some ''GER''))] []"

text \<open>Germany and France, each with its capital, at peace.\<close>

definition two_countries :: GameState where
  "two_countries =
     new_game [(''GER'', new_country ''GER'' 1 2000 20000),
               (''FRA'', new_country ''FRA'' 4 1800 18000)]
              [(1, new_province 1 ''plains'' 5 5000 (Some ''GER'')),
               (4, new_province 4 ''plains'' 5 5000 (Some ''FRA''))] []"

definition ger_fra_war :: GameState where
  "ger_fra_war = fst (declare_war two_countries ''GER'' ''FRA'')"

text \<open>
  Germany, France and Britain; then France at war with both of the others, Germany's war
  declared first.
\<close>

definition three_countries :: GameState where
  "three_countries =
     new_game [(''GER'', new_country ''GER'' 1 2000 20000),
               (''FRA'', new_country ''FRA'' 4 1800 18000),
               (''GBR'', new_country ''GBR'' 7 2500 15000)]
              [(1, new_province 1 ''plains'' 5 5000 (Some ''GER'')),
               (4, new_province 4 ''plains'' 5 5000 (Some ''FRA'')),
               (7, new_province 7 ''plains'' 5 5000 (Some ''GBR''))] []"

definition two_wars :: GameState where
  "two_wars =
     fst (declare_war (fst (declare_war three_countries ''GER'' ''FRA'')) ''GBR'' ''FRA'')"

text \<open>The same war after Germany has earned a war score of 50 against France.\<close>

definition ger_fra_war_scored :: GameState where
  "ger_fra_war_scored =
     modify_country ger_fra_war ''GER''
       (\<lambda>c. c\<lparr>war_scores := AList.update ''FRA'' 50 (war_scores c)\<rparr>)"

text \<open>A treaty that Germany can afford: Paris and 300 in reparations, for a war score of 20.\<close>

definition paris_demands :: "PeaceDemand list" where
  "paris_demands = [create_peace_demand ger_fra_war_scored ''annex_province'' 4,
                    create_peace_demand ger_fra_war_scored ''war_reparations'' 300]"

definition paris_treaty :: PeaceTreaty where
  "paris_treaty = \<lparr>from_country = ''GER'', to_country = ''FRA'', demands = paris_demands,
                    total_war_score_cost = 20\<rparr>"

definition treaty_pending :: GameState where
  "treaty_pending = fst (propose_peace_treaty ger_fra_war_scored ''GER'' ''FRA'' paris_demands)"


text \<open>
  The same treaty proposed a second time while the first proposal is still pending, and a
  demand of a kind that \<open>_execute_demand\<close> does not know.
\<close>

definition treaty_proposed_twice :: GameState where
  "treaty_proposed_twice =
     fst (propose_peace_treaty treaty_pending ''GER'' ''FRA'' paris_demands)"

definition access_demand :: PeaceDemand where
  "access_demand = create_peace_demand ger_fra_war_scored ''military_access'' 0"

text \<open>
  Germany and France at war, with the given war scores against each other; France owns
  three provinces.
\<close>

definition war_with_scores :: "int \<Rightarrow> int \<Rightarrow> GameState" where
  "war_with_scores g f =
     new_game
       [(''GER'', (new_country ''GER'' 1 2000 20000)
                    \<lparr>at_war_with := [''FRA''], war_scores := [(''FRA'', g)]\<rparr>),
        (''FRA'', (new_country ''FRA'' 4 1800 18000)
                    \<lparr>at_war_with := [''GER''], war_scores := [(''GER'', f)]\<rparr>)]
       [(1, new_province 1 ''plains'' 5 5000 (Some ''GER'')),
        (4, new_province 4 ''plains'' 5 5000 (Some ''FRA'')),
        (5, new_province 5 ''hills'' 3 3000 (Some ''FRA'')),
        (6, new_province 6 ''plains'' 3 3000 (Some ''FRA''))] []"


definition new_unit :: "int \<Rightarrow> string \<Rightarrow> string \<Rightarrow> int \<Rightarrow> int \<Rightarrow> int \<Rightarrow> Unit" where
  "new_unit i tid ow loc hp org =
     \<lparr>unit_id = i, unit_template = tid, unit_owner = ow, location = loc, current_hp = hp,
      organization = org, experience = 0, strength = 1, is_moving = False,
      move_target = None\<rparr>"

text \<open>The infantry template of \<open>UnitTemplateManager\<close>.\<close>

definition infantry :: UnitTemplate where
  "infantry = \<lparr>template_id = ''infantry'', category = ''land'', attack = 30, defense = 50,
                max_hp = 100, max_organization = 100, cost = 100, manpower_cost = 1000\<rparr>"

text \<open>
  Two German divisions in Berlin; the first is ordered to province 0, the second to
  province 1.
\<close>

definition ordered_to_zero :: GameState where
  "ordered_to_zero =
     (new_game [(''GER'', new_country ''GER'' 1 2000 20000)]
        [(0, new_province 0 ''plains'' 1 1000 None),
         (1, new_province 1 ''plains'' 5 5000 (Some ''GER''))]
        [(''infantry'', infantry)])
     \<lparr>units := [order_move (new_unit 1 ''infantry'' ''GER'' 1 100 100) 0,
                 order_move (new_unit 2 ''infantry'' ''GER'' 1 100 100) 1]\<rparr>"


text \<open>The war between Germany and France with one division of each in Paris.\<close>

definition paris_contested :: "int \<Rightarrow> int \<Rightarrow> GameState" where
  "paris_contested g f =
     (war_with_scores g f)
     \<lparr>templates := [(''infantry'', infantry)],
      units := [new_unit 1 ''infantry'' ''GER'' 4 100 100,
                new_unit 2 ''infantry'' ''FRA'' 4 100 100]\<rparr>"

text \<open>
  A battle for Paris; the state in which it is listed while both divisions are there; and
  the state in which the German division is gone, with France's war score against Germany
  as parameter.
\<close>

definition paris_battle :: Battle where
  "paris_battle = \<lparr>battle_province = 4, attackers = [''GER''], defenders = [''FRA''],
                    duration = 1\<rparr>"

definition paris_held :: "int \<Rightarrow> GameState" where
  "paris_held f =
     (paris_contested 0 f)
     \<lparr>units := [new_unit 2 ''infantry'' ''FRA'' 4 97 97], active_battles := [paris_battle]\<rparr>"

definition paris_fought :: GameState where
  "paris_fought = (paris_contested 0 0)\<lparr>active_battles := [paris_battle]\<rparr>"

section \<open>Properties of the economy\<close>

lemma daily_accrual_accumulator:
  "economy_time_accumulator (daily_accrual s) = economy_time_accumulator s"
  by (simp add: daily_accrual_def collect_manpower_def collect_daily_income_def)

text \<open>
  C1 (evaluation at the failing input). Germany has 2000 money and 500 manpower; a purchase
  costing 100 money and 1000 manpower is not affordable and returns false, yet the call
  leaves Germany with 1900 money: the money was debited before the manpower check failed.
\<close>

theorem purchase_unit_partial_debit:
  "can_afford_unit short_of_men ''GER'' 100 1000 = False
   \<and> snd (purchase_unit short_of_men ''GER'' 100 1000) = False
   \<and> map_option money (get_country short_of_men ''GER'') = Some 2000
   \<and> map_option money
        (get_country (fst (purchase_unit short_of_men ''GER'' 100 1000)) ''GER'') = Some 1900
   \<and> map_option manpower
        (get_country (fst (purchase_unit short_of_men ''GER'' 100 1000)) ''GER'') = Some 500"
  by (simp add: purchase_unit_def short_of_men_def new_game_def new_country_def get_country_def
      spend_money_def recruit_manpower_def put_country_def can_afford_unit_def)

text \<open>
  C2 (as stated, refuted). With an empty accumulator a single call with 72 hours holds three
  full days, so the claim wants three accruals and a remainder of 0. The call runs the
  accrual once and keeps 48 hours in the accumulator.
\<close>

theorem economy_update_three_days_counterexample:
  "economy_update short_of_men 72
     = daily_accrual (short_of_men\<lparr>economy_time_accumulator := 48\<rparr>)
   \<and> economy_update short_of_men 72
     \<noteq> (daily_accrual ^^ 3) (short_of_men\<lparr>economy_time_accumulator := 0\<rparr>)"
proof -
  have one: "economy_update short_of_men 72
      = daily_accrual (short_of_men\<lparr>economy_time_accumulator := 48\<rparr>)"
    by (simp add: economy_update_def update_interval_def short_of_men_def new_game_def)
  have "economy_time_accumulator (economy_update short_of_men 72) = 48"
    by (simp add: one daily_accrual_accumulator)
  moreover have "economy_time_accumulator
      ((daily_accrual ^^ 3) (short_of_men\<lparr>economy_time_accumulator := 0\<rparr>)) = 0"
    by (simp add: numeral_3_eq_3 daily_accrual_accumulator)
  ultimately have "economy_update short_of_men 72
      \<noteq> (daily_accrual ^^ 3) (short_of_men\<lparr>economy_time_accumulator := 0\<rparr>)"
    by auto
  with one show ?thesis by simp
qed

text \<open>
  C2 (amended). A call adds the elapsed time to the accumulator. When the sum has reached
  24 hours the daily accrual runs exactly once in that call and 24 hours are subtracted, so
  the overflow stays in the accumulator; otherwise nothing else changes. Days beyond the
  first are caught up by later calls, one per call.
\<close>

theorem economy_update_fires_at_most_once:
  "economy_update s dt =
     (if economy_time_accumulator s + dt \<ge> 24
      then daily_accrual (s\<lparr>economy_time_accumulator := economy_time_accumulator s + dt - 24\<rparr>)
      else s\<lparr>economy_time_accumulator := economy_time_accumulator s + dt\<rparr>)
   \<and> economy_time_accumulator (economy_update s dt) =
     (if economy_time_accumulator s + dt \<ge> 24
      then economy_time_accumulator s + dt - 24
      else economy_time_accumulator s + dt)"
  by (simp add: economy_update_def update_interval_def daily_accrual_accumulator)

section \<open>Properties of the war state\<close>

lemma get_country_put:
  "get_country (put_country s k c) k' = (if k' = k then Some c else get_country s k')"
  by (simp add: get_country_def put_country_def update_conv')

lemma get_country_modify:
  "get_country (modify_country s k f) k' =
     (if k' = k then map_option f (get_country s k) else get_country s k')"
  by (simp add: modify_country_def get_country_put split: option.splits)

lemma at_war_modify:
  "at_war (modify_country s k f) a b =
     (if a = k then (case get_country s k of None \<Rightarrow> False | Some c \<Rightarrow> is_at_war_with (f c) b)
      else at_war s a b)"
  by (simp add: at_war_def get_country_modify split: option.splits)

lemma war_score_modify:
  "war_score_of (modify_country s k f) a b =
     (if a = k then (case get_country s k of None \<Rightarrow> None | Some c \<Rightarrow> map_of (war_scores (f c)) b)
      else war_score_of s a b)"
  by (simp add: war_score_of_def get_country_modify split: option.splits)

lemma is_at_war_declare:
  "is_at_war_with (country_declare_war c k) k' = (k' = k \<or> is_at_war_with c k')"
  by (auto simp: is_at_war_with_def country_declare_war_def)

lemma scores_declare:
  "map_of (war_scores (country_declare_war c k)) k' =
     (if k' = k \<and> \<not> is_at_war_with c k then Some 0 else map_of (war_scores c) k')"
  by (auto simp: is_at_war_with_def country_declare_war_def update_conv')

lemma get_country_declare_war:
  "get_country (fst (declare_war s a b)) x =
     (if get_country s a \<noteq> None \<and> get_country s b \<noteq> None
      then map_option (\<lambda>c. let c1 = (if x = a then country_declare_war c b else c)
                           in if x = b then country_declare_war c1 a else c1) (get_country s x)
      else get_country s x)"
  by (auto simp: declare_war_def get_country_modify option.map_comp comp_def option.map_ident split: option.splits)

lemma get_country_make_peace:
  "get_country (make_peace s a b) x =
     (if get_country s a \<noteq> None \<and> get_country s b \<noteq> None
      then map_option (\<lambda>c. let c1 = (if x = a then country_make_peace c b else c)
                           in if x = b then country_make_peace c1 a else c1) (get_country s x)
      else get_country s x)"
  by (auto simp: make_peace_def get_country_modify option.map_comp comp_def option.map_ident split: option.splits)

lemma war_lists_ok_declare: "war_lists_ok c \<Longrightarrow> war_lists_ok (country_declare_war c k)"
  by (auto simp: war_lists_ok_def country_declare_war_def dom_update)

lemma at_war_with_declare:
  "set (at_war_with (country_declare_war c k)) = insert k (set (at_war_with c))"
  by (auto simp: country_declare_war_def)

lemma keys_delete: "fst ` set (AList.delete k al) = fst ` set al - {k}"
  by (induct al) auto

lemma war_scores_peace:
  "war_scores (country_make_peace c k) =
     (if k \<in> set (at_war_with c) then AList.delete k (war_scores c) else war_scores c)"
  by (simp add: country_make_peace_def Let_def map_of_eq_None_iff)

lemma at_war_list_peace:
  "at_war_with (country_make_peace c k) = remove1 k (at_war_with c)"
  by (simp add: country_make_peace_def Let_def remove1_idem)

lemma war_lists_ok_peace: "war_lists_ok c \<Longrightarrow> war_lists_ok (country_make_peace c k)"
  by (auto simp: war_lists_ok_def war_scores_peace at_war_list_peace keys_delete)

lemma scores_peace:
  "war_lists_ok c \<Longrightarrow> map_of (war_scores (country_make_peace c k)) k' =
     (if k' = k then None else map_of (war_scores c) k')"
proof (cases "k \<in> set (at_war_with c)")
  case True
  then show ?thesis by (simp add: war_scores_peace delete_conv')
next
  case False
  assume "war_lists_ok c"
  with False have "map_of (war_scores c) k = None"
    by (auto simp: war_lists_ok_def map_of_eq_None_iff)
  with False show ?thesis by (simp add: war_scores_peace)
qed

lemma in_at_war_peaceD:
  "e \<in> set (at_war_with (country_make_peace c k)) \<Longrightarrow> e \<in> set (at_war_with c)"
  using set_remove1_subset [of k "at_war_with c"] by (auto simp: at_war_list_peace)

lemma war_inv_fresh:
  assumes "\<forall>k c. get_country s k = Some c \<longrightarrow> at_war_with c = [] \<and> war_scores c = []"
  shows "war_inv s"
  using assms by (auto simp: war_inv_def war_lists_ok_def at_war_def is_at_war_with_def split: option.splits)

lemma at_war_declare_war:
  assumes "get_country s a \<noteq> None" "get_country s b \<noteq> None"
  shows "at_war (fst (declare_war s a b)) x y =
           (at_war s x y \<or> (x = a \<and> y = b) \<or> (x = b \<and> y = a))"
  using assms
  by (auto simp: at_war_def get_country_declare_war is_at_war_declare Let_def split: option.splits)

lemma at_war_make_peace:
  assumes "get_country s a \<noteq> None" "get_country s b \<noteq> None"
    and "\<forall>k c. get_country s k = Some c \<longrightarrow> distinct (at_war_with c)"
  shows "at_war (make_peace s a b) x y =
           (at_war s x y \<and> \<not> (x = a \<and> y = b) \<and> \<not> (x = b \<and> y = a))"
  using assms
  by (auto simp: at_war_def get_country_make_peace is_at_war_with_def at_war_list_peace Let_def
      split: option.splits)

lemma war_inv_declare_war: "war_inv s \<Longrightarrow> war_inv (fst (declare_war s a b))"
proof (cases "get_country s a \<noteq> None \<and> get_country s b \<noteq> None")
  case False
  assume "war_inv s"
  with False show ?thesis by (auto simp: declare_war_def split: option.splits)
next
  case True
  assume inv: "war_inv s"
  have sym: "\<forall>x y. at_war (fst (declare_war s a b)) x y = at_war (fst (declare_war s a b)) y x"
    using True inv by (auto simp: at_war_declare_war war_inv_def)
  have loc: "war_lists_ok c \<and> (\<forall>e \<in> set (at_war_with c). get_country (fst (declare_war s a b)) e \<noteq> None)"
    if "get_country (fst (declare_war s a b)) k = Some c" for k c
    using that True inv
    by (auto simp: get_country_declare_war war_inv_def Let_def war_lists_ok_declare
        at_war_with_declare split: if_splits)
  show ?thesis unfolding war_inv_def using sym loc by blast
qed

lemma war_inv_make_peace: "war_inv s \<Longrightarrow> war_inv (make_peace s a b)"
proof (cases "get_country s a \<noteq> None \<and> get_country s b \<noteq> None")
  case False
  assume "war_inv s"
  with False show ?thesis by (auto simp: make_peace_def split: option.splits)
next
  case True
  assume inv: "war_inv s"
  then have dist: "\<forall>k c. get_country s k = Some c \<longrightarrow> distinct (at_war_with c)"
    by (auto simp: war_inv_def war_lists_ok_def)
  have sym: "\<forall>x y. at_war (make_peace s a b) x y = at_war (make_peace s a b) y x"
    using True inv dist by (auto simp: at_war_make_peace war_inv_def)
  have loc: "war_lists_ok c \<and> (\<forall>e \<in> set (at_war_with c). get_country (make_peace s a b) e \<noteq> None)"
    if "get_country (make_peace s a b) k = Some c" for k c
    using that True inv
    by (auto simp: get_country_make_peace war_inv_def Let_def war_lists_ok_peace
        split: if_splits dest!: in_at_war_peaceD)
  show ?thesis unfolding war_inv_def using sym loc by blast
qed

lemma war_inv_other:
  assumes "war_inv s" and "same_war_state s s'"
  shows "war_inv s'"
proof -
  have rel: "rel_option (\<lambda>c c'. at_war_with c' = at_war_with c
                 \<and> map fst (war_scores c') = map fst (war_scores c))
               (get_country s k) (get_country s' k)" for k
    using assms(2) by (simp add: same_war_state_def)
  have aw: "at_war s' a b = at_war s a b" for a b
    using rel [of a] by (auto simp: at_war_def is_at_war_with_def option_rel_Some2 split: option.splits)
  have known: "get_country s' k \<noteq> None \<longleftrightarrow> get_country s k \<noteq> None" for k
    using rel [of k] by (cases "get_country s k"; cases "get_country s' k") auto
  have loc: "war_lists_ok c' \<and> (\<forall>e \<in> set (at_war_with c'). get_country s' e \<noteq> None)"
    if "get_country s' k = Some c'" for k c'
  proof -
    from rel [of k] that obtain c where c: "get_country s k = Some c"
      "at_war_with c' = at_war_with c" "map fst (war_scores c') = map fst (war_scores c)"
      by (auto simp: option_rel_Some2)
    from c(3) have "fst ` set (war_scores c') = fst ` set (war_scores c)"
      by (metis set_map)
    moreover have "get_country s' e \<noteq> None" if "e \<in> set (at_war_with c)" for e
    proof -
      from assms(1) c(1) that have "get_country s e \<noteq> None"
        unfolding war_inv_def by blast
      then show ?thesis using known [of e] by blast
    qed
    moreover from assms(1) c(1) have "war_lists_ok c"
      unfolding war_inv_def by blast
    ultimately show ?thesis
      using c(2) by (auto simp: war_lists_ok_def)
  qed
  show ?thesis unfolding war_inv_def using aw assms(1) loc by (auto simp: war_inv_def)
qed

lemma war_reachable_inv: "war_reachable s \<Longrightarrow> war_inv s"
  by (induction rule: war_reachable.induct)
     (auto intro: war_inv_fresh war_inv_declare_war war_inv_make_peace war_inv_other)

lemma war_inv_symmetric: "war_inv s \<Longrightarrow> war_symmetric s"
  by (simp add: war_inv_def war_symmetric_def)

lemma war_score_make_peace:
  assumes "war_inv s" "get_country s a \<noteq> None" "get_country s b \<noteq> None"
  shows "war_score_of (make_peace s a b) a b = None" "war_score_of (make_peace s a b) b a = None"
  using assms
  by (auto simp: war_score_of_def get_country_make_peace Let_def scores_peace war_lists_ok_peace
      war_inv_def split: option.splits)

lemma war_score_of_make_peace:
  assumes "war_inv s" and "get_country s a \<noteq> None" and "get_country s b \<noteq> None"
  shows "war_score_of (make_peace s a b) x y =
           (if (x = a \<and> y = b) \<or> (x = b \<and> y = a) then None else war_score_of s x y)"
proof (cases "get_country s x")
  case None
  with assms show ?thesis by (simp add: war_score_of_def get_country_make_peace)
next
  case (Some c)
  with assms(1) have ok: "war_lists_ok c" unfolding war_inv_def by blast
  then have ok': "war_lists_ok (country_make_peace c z)" for z by (rule war_lists_ok_peace)
  show ?thesis
    using assms(2,3) Some
    by (auto simp: war_score_of_def get_country_make_peace Let_def scores_peace ok ok')
qed

text \<open>
  C3 (as stated, refuted). Germany and France are at war and Germany has a war score of 50
  against France. Declaring the war again succeeds, and the score is still 50, not 0.
\<close>

theorem declare_war_again_counterexample:
  "at_war ger_fra_war_scored ''GER'' ''FRA''
   \<and> war_score_of ger_fra_war_scored ''GER'' ''FRA'' = Some 50
   \<and> snd (declare_war ger_fra_war_scored ''GER'' ''FRA'') = True
   \<and> war_score_of (fst (declare_war ger_fra_war_scored ''GER'' ''FRA'')) ''GER'' ''FRA'' = Some 50
   \<and> war_score_of (fst (declare_war ger_fra_war_scored ''GER'' ''FRA'')) ''GER'' ''FRA'' \<noteq> Some 0"
  by (simp add: ger_fra_war_scored_def ger_fra_war_def two_countries_def declare_war_def
      new_game_def new_country_def modify_country_def get_country_def put_country_def
      country_declare_war_def at_war_def war_score_of_def is_at_war_with_def)

text \<open>
  C3 (amended). For known countries A and B, \<open>declare_war(A, B)\<close> returns true and
  afterwards each is in the other's at-war list. A side that was not yet at war with the
  other gets a war-score entry of 0 for it; a side that was already at war keeps the score
  it had (a declaration between countries already at war resets nothing).
\<close>

theorem declare_war_sets_war:
  assumes "get_country s a \<noteq> None" and "get_country s b \<noteq> None"
  shows "snd (declare_war s a b) = True
     \<and> at_war (fst (declare_war s a b)) a b
     \<and> at_war (fst (declare_war s a b)) b a
     \<and> war_score_of (fst (declare_war s a b)) a b
         = (if at_war s a b then war_score_of s a b else Some 0)
     \<and> war_score_of (fst (declare_war s a b)) b a
         = (if at_war s b a then war_score_of s b a else Some 0)"
  using assms
  by (auto simp: declare_war_def at_war_modify war_score_modify get_country_modify
      is_at_war_declare scores_declare at_war_def war_score_of_def split: option.splits)

theorem declare_war_sets_war_witness:
  "get_country two_countries ''GER'' \<noteq> None \<and> get_country two_countries ''FRA'' \<noteq> None
   \<and> \<not> at_war two_countries ''GER'' ''FRA''
   \<and> snd (declare_war two_countries ''GER'' ''FRA'') = True
   \<and> at_war (fst (declare_war two_countries ''GER'' ''FRA'')) ''GER'' ''FRA''
   \<and> at_war (fst (declare_war two_countries ''GER'' ''FRA'')) ''FRA'' ''GER''
   \<and> war_score_of (fst (declare_war two_countries ''GER'' ''FRA'')) ''GER'' ''FRA'' = Some 0
   \<and> war_score_of (fst (declare_war two_countries ''GER'' ''FRA'')) ''FRA'' ''GER'' = Some 0"
proof -
  have k: "get_country two_countries ''GER'' \<noteq> None" "get_country two_countries ''FRA'' \<noteq> None"
    by (simp_all add: two_countries_def new_game_def get_country_def)
  have p: "\<not> at_war two_countries ''GER'' ''FRA''" "\<not> at_war two_countries ''FRA'' ''GER''"
    by (simp_all add: two_countries_def new_game_def new_country_def get_country_def at_war_def
        is_at_war_with_def)
  show ?thesis
    using k p declare_war_sets_war [OF k] by simp
qed

lemma frame_update:
  assumes "map_of al k = Some c" and "war_frame v = war_frame c"
  shows "map (\<lambda>(k, c). (k, war_frame c)) (AList.update k v al)
           = map (\<lambda>(k, c). (k, war_frame c)) al"
  using assms by (induction al) (auto split: if_splits)

lemma only_war_changes_refl: "only_war_changes s s"
  by (simp add: only_war_changes_def)

lemma only_war_changes_trans:
  "only_war_changes s s1 \<Longrightarrow> only_war_changes s1 s2 \<Longrightarrow> only_war_changes s s2"
  by (simp add: only_war_changes_def)

lemma only_war_changes_modify:
  assumes "\<And>c. war_frame (f c) = war_frame c"
  shows "only_war_changes s (modify_country s k f)"
proof (cases "get_country s k")
  case None
  then show ?thesis by (simp add: modify_country_def only_war_changes_refl)
next
  case (Some c)
  then have "map_of (countries s) k = Some c" by (simp add: get_country_def)
  then have "map (\<lambda>(k, c). (k, war_frame c)) (AList.update k (f c) (countries s))
               = map (\<lambda>(k, c). (k, war_frame c)) (countries s)"
    by (rule frame_update) (rule assms)
  with Some show ?thesis
    by (simp add: modify_country_def put_country_def only_war_changes_def)
qed

lemma war_frame_declare: "war_frame (country_declare_war c k) = war_frame c"
  by (simp add: war_frame_def country_declare_war_def)

lemma war_frame_peace: "war_frame (country_make_peace c k) = war_frame c"
  by (simp add: war_frame_def country_make_peace_def Let_def)

lemma only_war_changes_declare_war: "only_war_changes s (fst (declare_war s a b))"
proof (cases "get_country s a \<noteq> None \<and> get_country s b \<noteq> None")
  case False
  then show ?thesis by (auto simp: declare_war_def only_war_changes_refl split: option.splits)
next
  case True
  have "only_war_changes s
          (modify_country (modify_country s a (\<lambda>c. country_declare_war c b)) b
             (\<lambda>c. country_declare_war c a))"
    by (rule only_war_changes_trans; rule only_war_changes_modify; rule war_frame_declare)
  with True show ?thesis by (auto simp: declare_war_def)
qed

lemma only_war_changes_make_peace: "only_war_changes s (make_peace s a b)"
proof (cases "get_country s a \<noteq> None \<and> get_country s b \<noteq> None")
  case False
  then show ?thesis by (auto simp: make_peace_def only_war_changes_refl split: option.splits)
next
  case True
  have "only_war_changes s
          (modify_country (modify_country s a (\<lambda>c. country_make_peace c b)) b
             (\<lambda>c. country_make_peace c a))"
    by (rule only_war_changes_trans; rule only_war_changes_modify; rule war_frame_peace)
  with True show ?thesis by (auto simp: make_peace_def)
qed

lemma war_score_of_declare_war:
  assumes "get_country s a \<noteq> None" "get_country s b \<noteq> None"
  shows "war_score_of (fst (declare_war s a b)) x y =
           (if ((x = a \<and> y = b) \<or> (x = b \<and> y = a)) \<and> \<not> at_war s x y then Some 0
            else war_score_of s x y)"
  using assms
  by (auto simp: war_score_of_def at_war_def get_country_declare_war Let_def scores_declare
      is_at_war_declare split: option.splits)

lemma unknown_noop:
  assumes "get_country s a = None \<or> get_country s b = None"
  shows "make_peace s a b = s" "declare_war s a b = (s, False)"
  using assms by (auto simp: make_peace_def declare_war_def split: option.splits)

lemma two_wars_eval:
  "two_wars =
     new_game
       [(''GER'', (new_country ''GER'' 1 2000 20000)
                    \<lparr>at_war_with := [''FRA''], war_scores := [(''FRA'', 0)]\<rparr>),
        (''FRA'', (new_country ''FRA'' 4 1800 18000)
                    \<lparr>at_war_with := [''GER'', ''GBR''],
                      war_scores := [(''GER'', 0), (''GBR'', 0)]\<rparr>),
        (''GBR'', (new_country ''GBR'' 7 2500 15000)
                    \<lparr>at_war_with := [''FRA''], war_scores := [(''FRA'', 0)]\<rparr>)]
       [(1, new_province 1 ''plains'' 5 5000 (Some ''GER'')),
        (4, new_province 4 ''plains'' 5 5000 (Some ''FRA'')),
        (7, new_province 7 ''plains'' 5 5000 (Some ''GBR''))] []"
  by (simp add: two_wars_def three_countries_def declare_war_def new_game_def new_country_def
      modify_country_def get_country_def put_country_def country_declare_war_def)

lemma peace_of_two_wars_eval:
  "make_peace two_wars ''GER'' ''FRA'' =
     new_game
       [(''GER'', new_country ''GER'' 1 2000 20000),
        (''FRA'', (new_country ''FRA'' 4 1800 18000)
                    \<lparr>at_war_with := [''GBR''], war_scores := [(''GBR'', 0)]\<rparr>),
        (''GBR'', (new_country ''GBR'' 7 2500 15000)
                    \<lparr>at_war_with := [''FRA''], war_scores := [(''FRA'', 0)]\<rparr>)]
       [(1, new_province 1 ''plains'' 5 5000 (Some ''GER'')),
        (4, new_province 4 ''plains'' 5 5000 (Some ''FRA'')),
        (7, new_province 7 ''plains'' 5 5000 (Some ''GBR''))] []"
  by (simp add: two_wars_eval make_peace_def new_game_def new_country_def
      modify_country_def get_country_def put_country_def country_make_peace_def Let_def)

text \<open>
  C7. In every state of a game (countries loaded without wars, then any sequence of war
  declarations, peace settlements and other operations) the war relation is symmetric:
  A is at war with B exactly when B is at war with A. It is symmetric again after a further
  \<open>declare_war\<close> or \<open>make_peace\<close>. Both calls change nothing but at-war lists and
  war scores: the registry keeps its countries, in their order, and the rest of the state
  is as it was. Between known countries A and B, \<open>make_peace\<close> removes each from the
  other's at-war list and deletes both war-score entries, and every other war and every
  other war score is as before; \<open>declare_war\<close> returns true, adds exactly the war
  between A and B, and sets to 0 the score of a side that was not yet at war with the
  other. When A or B is unknown, both calls leave the state as it is and
  \<open>declare_war\<close> returns false.
\<close>

theorem war_symmetry_invariant:
  assumes "war_reachable s"
  shows "war_symmetric s
     \<and> war_symmetric (fst (declare_war s a b))
     \<and> war_symmetric (make_peace s a b)
     \<and> only_war_changes s (fst (declare_war s a b))
     \<and> only_war_changes s (make_peace s a b)
     \<and> (get_country s a \<noteq> None \<and> get_country s b \<noteq> None \<longrightarrow>
          \<not> at_war (make_peace s a b) a b \<and> \<not> at_war (make_peace s a b) b a
          \<and> war_score_of (make_peace s a b) a b = None
          \<and> war_score_of (make_peace s a b) b a = None
          \<and> (\<forall>x y. at_war (make_peace s a b) x y =
                  (at_war s x y \<and> \<not> (x = a \<and> y = b) \<and> \<not> (x = b \<and> y = a)))
          \<and> (\<forall>x y. war_score_of (make_peace s a b) x y =
                  (if (x = a \<and> y = b) \<or> (x = b \<and> y = a) then None else war_score_of s x y))
          \<and> snd (declare_war s a b) = True
          \<and> (\<forall>x y. at_war (fst (declare_war s a b)) x y =
                  (at_war s x y \<or> (x = a \<and> y = b) \<or> (x = b \<and> y = a)))
          \<and> (\<forall>x y. war_score_of (fst (declare_war s a b)) x y =
                  (if ((x = a \<and> y = b) \<or> (x = b \<and> y = a)) \<and> \<not> at_war s x y then Some 0
                   else war_score_of s x y)))
     \<and> (get_country s a = None \<or> get_country s b = None \<longrightarrow>
          make_peace s a b = s \<and> declare_war s a b = (s, False))"
proof -
  have inv: "war_inv s" using assms by (rule war_reachable_inv)
  then have dist: "\<forall>k c. get_country s k = Some c \<longrightarrow> distinct (at_war_with c)"
    by (auto simp: war_inv_def war_lists_ok_def)
  have sym: "war_symmetric s" "war_symmetric (fst (declare_war s a b))"
    "war_symmetric (make_peace s a b)"
    using inv by (simp_all add: war_inv_symmetric war_inv_declare_war war_inv_make_peace)
  have frame: "only_war_changes s (fst (declare_war s a b))"
    "only_war_changes s (make_peace s a b)"
    by (simp_all add: only_war_changes_declare_war only_war_changes_make_peace)
  let ?K = "\<not> at_war (make_peace s a b) a b \<and> \<not> at_war (make_peace s a b) b a
          \<and> war_score_of (make_peace s a b) a b = None
          \<and> war_score_of (make_peace s a b) b a = None
          \<and> (\<forall>x y. at_war (make_peace s a b) x y =
                  (at_war s x y \<and> \<not> (x = a \<and> y = b) \<and> \<not> (x = b \<and> y = a)))
          \<and> (\<forall>x y. war_score_of (make_peace s a b) x y =
                  (if (x = a \<and> y = b) \<or> (x = b \<and> y = a) then None else war_score_of s x y))
          \<and> snd (declare_war s a b) = True
          \<and> (\<forall>x y. at_war (fst (declare_war s a b)) x y =
                  (at_war s x y \<or> (x = a \<and> y = b) \<or> (x = b \<and> y = a)))
          \<and> (\<forall>x y. war_score_of (fst (declare_war s a b)) x y =
                  (if ((x = a \<and> y = b) \<or> (x = b \<and> y = a)) \<and> \<not> at_war s x y then Some 0
                   else war_score_of s x y))"
  have known: "get_country s a \<noteq> None \<and> get_country s b \<noteq> None \<longrightarrow> ?K"
  proof (intro impI, elim conjE)
    assume k: "get_country s a \<noteq> None" "get_country s b \<noteq> None"
    have 1: "at_war (make_peace s a b) x y =
                  (at_war s x y \<and> \<not> (x = a \<and> y = b) \<and> \<not> (x = b \<and> y = a))" for x y
      using k dist by (rule at_war_make_peace)
    have 2: "war_score_of (make_peace s a b) x y =
                  (if (x = a \<and> y = b) \<or> (x = b \<and> y = a) then None else war_score_of s x y)" for x y
      using inv k by (rule war_score_of_make_peace)
    have 3: "at_war (fst (declare_war s a b)) x y =
                  (at_war s x y \<or> (x = a \<and> y = b) \<or> (x = b \<and> y = a))" for x y
      using k by (rule at_war_declare_war)
    have 4: "war_score_of (fst (declare_war s a b)) x y =
                  (if ((x = a \<and> y = b) \<or> (x = b \<and> y = a)) \<and> \<not> at_war s x y then Some 0
                   else war_score_of s x y)" for x y
      using k by (rule war_score_of_declare_war)
    have 5: "snd (declare_war s a b) = True"
      using k by (auto simp: declare_war_def split: option.splits)
    have 6: "\<not> at_war (make_peace s a b) a b" "\<not> at_war (make_peace s a b) b a"
      "war_score_of (make_peace s a b) a b = None" "war_score_of (make_peace s a b) b a = None"
      by (simp_all add: 1 2)
    show ?K
      by (intro conjI allI 1 2 3 4 5 6)
  qed
  have unknown: "get_country s a = None \<or> get_country s b = None \<longrightarrow>
          make_peace s a b = s \<and> declare_war s a b = (s, False)"
    using unknown_noop [of s a b] by simp
  show ?thesis
    by (intro conjI sym frame known unknown)
qed

theorem war_symmetry_invariant_witness:
  "war_reachable two_wars
   \<and> get_country two_wars ''GER'' \<noteq> None \<and> get_country two_wars ''FRA'' \<noteq> None
   \<and> get_country two_wars ''ITA'' = None
   \<and> at_war two_wars ''GER'' ''FRA'' \<and> at_war two_wars ''GBR'' ''FRA''
   \<and> war_symmetric two_wars
   \<and> war_symmetric (make_peace two_wars ''GER'' ''FRA'')
   \<and> \<not> at_war (make_peace two_wars ''GER'' ''FRA'') ''GER'' ''FRA''
   \<and> \<not> at_war (make_peace two_wars ''GER'' ''FRA'') ''FRA'' ''GER''
   \<and> war_score_of (make_peace two_wars ''GER'' ''FRA'') ''GER'' ''FRA'' = None
   \<and> war_score_of (make_peace two_wars ''GER'' ''FRA'') ''FRA'' ''GER'' = None
   \<and> at_war (make_peace two_wars ''GER'' ''FRA'') ''GBR'' ''FRA''
   \<and> at_war (make_peace two_wars ''GER'' ''FRA'') ''FRA'' ''GBR''
   \<and> war_score_of (make_peace two_wars ''GER'' ''FRA'') ''FRA'' ''GBR'' = Some 0
   \<and> war_score_of (make_peace two_wars ''GER'' ''FRA'') ''GBR'' ''FRA'' = Some 0
   \<and> only_war_changes two_wars (make_peace two_wars ''GER'' ''FRA'')
   \<and> map fst (countries (make_peace two_wars ''GER'' ''FRA'')) = [''GER'', ''FRA'', ''GBR'']
   \<and> at_war (fst (declare_war two_wars ''GER'' ''GBR'')) ''GBR'' ''GER''
   \<and> at_war (fst (declare_war two_wars ''GER'' ''GBR'')) ''FRA'' ''GER''
   \<and> war_score_of (fst (declare_war two_wars ''GER'' ''GBR'')) ''GBR'' ''GER'' = Some 0
   \<and> make_peace two_wars ''GER'' ''ITA'' = two_wars
   \<and> declare_war two_wars ''GER'' ''ITA'' = (two_wars, False)"
proof -
  have "war_reachable three_countries"
    by (rule war_reachable.fresh)
       (auto simp: three_countries_def new_game_def new_country_def get_country_def
          split: if_splits)
  then have "war_reachable (fst (declare_war three_countries ''GER'' ''FRA''))"
    by (rule war_reachable.declared)
  then have r: "war_reachable two_wars"
    unfolding two_wars_def by (rule war_reachable.declared)
  have k: "get_country two_wars ''GER'' \<noteq> None" "get_country two_wars ''FRA'' \<noteq> None"
    "get_country two_wars ''GBR'' \<noteq> None" "get_country two_wars ''ITA'' = None"
    by (simp_all add: two_wars_eval new_game_def get_country_def)
  have w: "at_war two_wars ''GER'' ''FRA''" "at_war two_wars ''GBR'' ''FRA''"
    "at_war two_wars ''FRA'' ''GER''" "at_war two_wars ''FRA'' ''GBR''"
    "\<not> at_war two_wars ''GBR'' ''GER''"
    by (simp_all add: two_wars_eval new_game_def new_country_def get_country_def at_war_def
        is_at_war_with_def)
  have sc: "war_score_of two_wars ''FRA'' ''GBR'' = Some 0"
    "war_score_of two_wars ''GBR'' ''FRA'' = Some 0"
    by (simp_all add: two_wars_eval new_game_def new_country_def get_country_def
        war_score_of_def)
  have keys: "map fst (countries (make_peace two_wars ''GER'' ''FRA'')) = [''GER'', ''FRA'', ''GBR'']"
    by (simp add: peace_of_two_wars_eval new_game_def)
  show ?thesis
    using r k w sc keys war_symmetry_invariant [OF r, of "''GER''" "''FRA''"]
      war_symmetry_invariant [OF r, of "''GER''" "''GBR''"]
      war_symmetry_invariant [OF r, of "''GER''" "''ITA''"]
    by simp
qed

section \<open>Properties of forced peace\<close>

lemma get_province_num_of_int [simp]:
  "get_province_num s (real_of_int k) = map_option (Pair k) (get_province s k)"
  by (simp add: get_province_num_def)

lemma get_province_modify:
  "get_province (modify_province s k f) k' =
     (if k' = k then map_option f (get_province s k) else get_province s k')"
  by (simp add: modify_province_def get_province_def update_conv' split: option.splits)

lemma modify_province_frame:
  "modify_province s k f = s\<lparr>provinces := provinces (modify_province s k f)\<rparr>"
  by (simp add: modify_province_def split: option.splits)

lemma execute_annex:
  "execute_demand s w l (create_peace_demand s0 ''annex_province'' (real_of_int k)) =
     modify_province s k (transfer w l)"
  by (auto simp: execute_demand_def create_peace_demand_def transfer_def modify_province_def
      get_province_def update_triv split: option.splits)

lemma transfer_idem [simp]: "transfer w l (transfer w l p) = transfer w l p"
  by (simp add: transfer_def)

lemma annex_fold:
  "foldl (\<lambda>s d. execute_demand s w l d) s
      (map (\<lambda>x. create_peace_demand s0 ''annex_province'' (real_of_int (g x))) xs)
   = foldl (\<lambda>s k. modify_province s k (transfer w l)) s (map g xs)"
  by (induction xs arbitrary: s) (simp_all add: execute_annex)

lemma annex_fold_frame:
  "foldl (\<lambda>s k. modify_province s k f) s ids
     = s\<lparr>provinces := provinces (foldl (\<lambda>s k. modify_province s k f) s ids)\<rparr>"
proof (induction ids arbitrary: s)
  case Nil
  show ?case by simp
next
  case (Cons k ids)
  have "foldl (\<lambda>s k. modify_province s k f) (modify_province s k f) ids
      = (modify_province s k f)\<lparr>provinces :=
           provinces (foldl (\<lambda>s k. modify_province s k f) (modify_province s k f) ids)\<rparr>"
    by (rule Cons.IH)
  also have "\<dots> = s\<lparr>provinces :=
           provinces (foldl (\<lambda>s k. modify_province s k f) (modify_province s k f) ids)\<rparr>"
    by (subst modify_province_frame) simp
  finally show ?case by simp
qed

lemma annex_fold_get:
  "get_province (foldl (\<lambda>s k. modify_province s k (transfer w l)) s ids) k =
     (if k \<in> set ids then map_option (transfer w l) (get_province s k) else get_province s k)"
  by (induction ids arbitrary: s)
     (auto simp: get_province_modify option.map_comp comp_def)

lemma get_country_provinces_update [simp]:
  "get_country (s\<lparr>provinces := P\<rparr>) = get_country s"
  by (simp add: get_country_def fun_eq_iff)

lemma make_peace_provinces_update:
  "make_peace (s\<lparr>provinces := P\<rparr>) a b = (make_peace s a b)\<lparr>provinces := P\<rparr>"
  by (simp add: make_peace_def modify_country_def put_country_def get_country_def
      split: option.splits)

lemma provinces_make_peace [simp]: "provinces (make_peace s a b) = provinces s"
  by (simp add: make_peace_def modify_country_def put_country_def split: option.splits)

lemma get_province_make_peace [simp]: "get_province (make_peace s a b) = get_province s"
  by (simp add: get_province_def fun_eq_iff)

lemma auto_peace_pair_step:
  assumes "get_country s l \<noteq> None" and "100 \<le> v"
  shows "auto_peace_pair s w (l, v) =
           make_peace (foldl (\<lambda>s k. modify_province s k (transfer w l)) s
                         (map province_id (get_provinces_by_owner s l))) w l"
  using assms
  by (auto simp: auto_peace_pair_def execute_demands_list_def Let_def annex_fold)

lemma auto_peace_pair_frame:
  assumes "get_country s l \<noteq> None" and "100 \<le> v"
  shows "\<exists>P. auto_peace_pair s w (l, v) = (make_peace s w l)\<lparr>provinces := P\<rparr>"
proof -
  let ?s1 = "foldl (\<lambda>s k. modify_province s k (transfer w l)) s
               (map province_id (get_provinces_by_owner s l))"
  have "?s1 = s\<lparr>provinces := provinces ?s1\<rparr>" by (rule annex_fold_frame)
  then have "make_peace ?s1 w l = (make_peace s w l)\<lparr>provinces := provinces ?s1\<rparr>"
    by (metis make_peace_provinces_update)
  then show ?thesis
    unfolding auto_peace_pair_step [OF assms] by (rule exI)
qed

lemma auto_peace_pair_provinces:
  assumes "get_country s l \<noteq> None" and "100 \<le> v"
    and wf: "\<forall>k p. get_province s k = Some p \<longrightarrow> province_id p = k"
  shows "get_province (auto_peace_pair s w (l, v)) k
           = map_option (transfer w l) (get_province s k)"
proof -
  let ?ids = "map province_id (get_provinces_by_owner s l)"
  have "map_option (transfer w l) (get_province s k) = get_province s k" if "k \<notin> set ?ids"
  proof (cases "get_province s k")
    case None
    then show ?thesis by simp
  next
    case (Some p)
    then have "(k, p) \<in> set (provinces s)" by (simp add: get_province_def map_of_SomeD)
    moreover from Some wf have "province_id p = k" by blast
    ultimately have "owner p \<noteq> Some l"
      using that by (force simp: get_provinces_by_owner_def)
    with Some show ?thesis by (simp add: transfer_def)
  qed
  then show ?thesis
    by (simp add: auto_peace_pair_step [OF assms(1,2)] annex_fold_get)
qed

lemma auto_peace_eval:
  "100 \<le> g \<Longrightarrow>
   auto_peace_at_100 (war_with_scores g f) =
     new_game
       [(''GER'', new_country ''GER'' 1 2000 20000),
        (''FRA'', new_country ''FRA'' 4 1800 18000)]
       [(1, new_province 1 ''plains'' 5 5000 (Some ''GER'')),
        (4, new_province 4 ''plains'' 5 5000 (Some ''GER'')),
        (5, new_province 5 ''hills'' 3 3000 (Some ''GER'')),
        (6, new_province 6 ''plains'' 3 3000 (Some ''GER''))] []"
  by (simp add: war_with_scores_def auto_peace_at_100_def auto_peace_country_def
      auto_peace_pair_def execute_demands_list_def create_peace_demand_def
      execute_demand_def get_province_num_def get_province_def get_provinces_by_owner_def
      modify_province_def new_province_def new_country_def new_game_def get_country_def
      modify_country_def put_country_def make_peace_def country_make_peace_def Let_def)

lemma war_with_scores_inv: "war_inv (war_with_scores g f)"
  unfolding war_inv_def
  by (auto simp: war_with_scores_def new_game_def new_country_def get_country_def at_war_def
      is_at_war_with_def war_lists_ok_def split: if_splits)

text \<open>
  C5 (as stated, refuted). Germany and France both hold a war score of 100 against the
  other. France's score against Germany is at least 100, so the claim wants Germany's
  province 1 handed to France. Germany is registered first: its turn annexes France and
  makes peace, which deletes France's score before France's turn comes. Province 1 stays
  German.
\<close>

theorem auto_peace_mutual_counterexample:
  "war_score_of (war_with_scores 100 100) ''FRA'' ''GER'' = Some 100
   \<and> map_option owner (get_province (war_with_scores 100 100) 1) = Some (Some ''GER'')
   \<and> map_option owner (get_province (auto_peace_at_100 (war_with_scores 100 100)) 1)
       = Some (Some ''GER'')
   \<and> map_option owner (get_province (auto_peace_at_100 (war_with_scores 100 100)) 1)
       \<noteq> Some (Some ''FRA'')"
  by (simp add: auto_peace_eval)
     (simp add: war_with_scores_def war_score_of_def get_country_def get_province_def
        new_game_def new_province_def)

lemma war_inv_cong:
  assumes "get_country s' = get_country s"
  shows "war_inv s' = war_inv s"
  by (simp add: war_inv_def at_war_def assms)

lemma pair_noop:
  "get_country s y = None \<or> v < 100 \<Longrightarrow> auto_peace_pair s x (y, v) = s"
  by (auto simp: auto_peace_pair_def)

lemma pair_get_country:
  assumes "get_country s y \<noteq> None" and "100 \<le> v"
  shows "get_country (auto_peace_pair s x (y, v)) = get_country (make_peace s x y)"
proof -
  obtain P where "auto_peace_pair s x (y, v) = (make_peace s x y)\<lparr>provinces := P\<rparr>"
    using auto_peace_pair_frame [OF assms] by blast
  then show ?thesis by simp
qed

lemma set_delete_subset: "set (AList.delete k al) \<subseteq> set al"
  by (auto simp: AList.delete_eq)

lemma tracks_make_peace_country:
  assumes "code c = k \<and> distinct (map fst (war_scores c)) \<and> set (war_scores c) \<subseteq> S"
  shows "code (country_make_peace c x) = k
     \<and> distinct (map fst (war_scores (country_make_peace c x)))
     \<and> set (war_scores (country_make_peace c x)) \<subseteq> S"
  using assms set_delete_subset [of x "war_scores c"]
  by (auto simp: war_scores_peace distinct_delete country_make_peace_def Let_def)

lemma tracks_pair:
  assumes "tracks s0 s"
  shows "tracks s0 (auto_peace_pair s x e)"
proof (cases "get_country s (fst e) = None \<or> snd e < 100")
  case True
  then have "auto_peace_pair s x e = s" using pair_noop [of s "fst e" "snd e" x] by simp
  with assms show ?thesis by simp
next
  case False
  obtain y v where e: "e = (y, v)" by (cases e)
  with False have yv: "get_country s y \<noteq> None" "100 \<le> v" by auto
  let ?s' = "auto_peace_pair s x (y, v)"
  have gc: "get_country ?s' = get_country (make_peace s x y)"
    using yv by (rule pair_get_country)
  from assms have inv: "war_inv s"
    and rel: "\<And>k. rel_option (\<lambda>c0 c. code c = k \<and> distinct (map fst (war_scores c))
                               \<and> set (war_scores c) \<subseteq> set (war_scores c0))
                (get_country s0 k) (get_country s k)"
    and wf: "\<forall>k p. get_province s k = Some p \<longrightarrow> province_id p = k"
    by (simp_all add: tracks_def)
  have 1: "war_inv ?s'"
    using war_inv_make_peace [OF inv] by (simp add: war_inv_cong [OF gc])
  have 2: "rel_option (\<lambda>c0 c. code c = k \<and> distinct (map fst (war_scores c))
                               \<and> set (war_scores c) \<subseteq> set (war_scores c0))
                (get_country s0 k) (get_country ?s' k)" for k
  proof (cases "get_country s k")
    case None
    with rel [of k] show ?thesis by (simp add: gc get_country_make_peace)
  next
    case (Some c)
    with rel [of k] obtain c0 where c0: "get_country s0 k = Some c0"
      and c: "code c = k \<and> distinct (map fst (war_scores c))
              \<and> set (war_scores c) \<subseteq> set (war_scores c0)"
      by (auto simp: option_rel_Some2)
    show ?thesis
      using tracks_make_peace_country [OF c]
        tracks_make_peace_country [OF tracks_make_peace_country [OF c]]
      by (simp add: gc get_country_make_peace Some c0 c Let_def)
  qed
  have 3: "\<forall>k p. get_province ?s' k = Some p \<longrightarrow> province_id p = k"
    using wf by (auto simp: auto_peace_pair_provinces [OF yv wf] transfer_def)
  show ?thesis
    unfolding tracks_def e using 1 2 3 by blast
qed

lemma pair_war_score:
  assumes "tracks s0 s" and "get_country s y \<noteq> None" and "100 \<le> v"
    and "get_country s x \<noteq> None"
  shows "war_score_of (auto_peace_pair s x (y, v)) p q =
           (if (p = x \<and> q = y) \<or> (p = y \<and> q = x) then None else war_score_of s p q)"
proof -
  from assms(1) have inv: "war_inv s" by (simp add: tracks_def)
  have "war_score_of (auto_peace_pair s x (y, v)) p q = war_score_of (make_peace s x y) p q"
    by (simp add: war_score_of_def pair_get_country [OF assms(2,3)])
  then show ?thesis by (simp add: war_score_of_make_peace [OF inv assms(4,2)])
qed

lemma pair_at_war:
  assumes "tracks s0 s" and "get_country s y \<noteq> None" and "100 \<le> v"
    and "get_country s x \<noteq> None"
  shows "at_war (auto_peace_pair s x (y, v)) p q =
           (at_war s p q \<and> \<not> (p = x \<and> q = y) \<and> \<not> (p = y \<and> q = x))"
proof -
  from assms(1) have inv: "war_inv s" by (simp add: tracks_def)
  then have dist: "\<forall>k c. get_country s k = Some c \<longrightarrow> distinct (at_war_with c)"
    by (auto simp: war_inv_def war_lists_ok_def)
  have "at_war (auto_peace_pair s x (y, v)) p q = at_war (make_peace s x y) p q"
    by (simp add: at_war_def pair_get_country [OF assms(2,3)])
  then show ?thesis by (simp add: at_war_make_peace [OF assms(4,2) dist])
qed

lemma pair_owned:
  assumes "tracks s0 s" and "owned_by s0 s b z" and "fst e \<noteq> z \<or> snd e < 100"
  shows "owned_by s0 (auto_peace_pair s x e) b z"
proof (cases "get_country s (fst e) = None \<or> snd e < 100")
  case True
  then show ?thesis using pair_noop [of s "fst e" "snd e" x] assms(2) by simp
next
  case False
  obtain y v where e: "e = (y, v)" by (cases e)
  with False assms(3) have yv: "get_country s y \<noteq> None" "100 \<le> v" and yz: "y \<noteq> z" by auto
  from assms(1) have wf: "\<forall>k p. get_province s k = Some p \<longrightarrow> province_id p = k"
    by (simp add: tracks_def)
  show ?thesis
    unfolding owned_by_def e
  proof (intro allI impI)
    fix k p assume "get_province s0 k = Some p" "owner p = Some b"
    with assms(2) obtain p' where "get_province s k = Some p'" "owner p' = Some z"
      unfolding owned_by_def by fastforce
    with yz show "map_option owner (get_province (auto_peace_pair s x (y, v)) k) = Some (Some z)"
      by (simp add: auto_peace_pair_provinces [OF yv wf] transfer_def)
  qed
qed

lemma pre_step:
  assumes "forced_pre s0 a b s" and "harmless a b e" and "get_country s x \<noteq> None"
  shows "forced_pre s0 a b (auto_peace_pair s x e)"
proof (cases "get_country s (fst e) = None \<or> snd e < 100")
  case True
  then show ?thesis using pair_noop [of s "fst e" "snd e" x] assms(1) by simp
next
  case False
  obtain y v where e: "e = (y, v)" by (cases e)
  with False assms(2) have yv: "get_country s y \<noteq> None" "100 \<le> v"
    and ne: "y \<noteq> a" "y \<noteq> b" by (auto simp: harmless_def)
  from assms(1) have t: "tracks s0 s" and o: "owned_by s0 s b b"
    and sc: "\<exists>sc. war_score_of s a b = Some sc \<and> 100 \<le> sc"
    by (simp_all add: forced_pre_def)
  have "tracks s0 (auto_peace_pair s x e)" using t by (rule tracks_pair)
  moreover have "owned_by s0 (auto_peace_pair s x e) b b"
    using t o by (rule pair_owned) (simp add: e ne)
  moreover have "war_score_of (auto_peace_pair s x e) a b = war_score_of s a b"
    using ne by (simp add: e pair_war_score [OF t yv assms(3)])
  ultimately show ?thesis using sc by (simp add: forced_pre_def)
qed

lemma post_step:
  assumes "forced_post s0 a b s" and "harmless a b e" and "get_country s x \<noteq> None"
  shows "forced_post s0 a b (auto_peace_pair s x e)"
proof (cases "get_country s (fst e) = None \<or> snd e < 100")
  case True
  then show ?thesis using pair_noop [of s "fst e" "snd e" x] assms(1) by simp
next
  case False
  obtain y v where e: "e = (y, v)" by (cases e)
  with False assms(2) have yv: "get_country s y \<noteq> None" "100 \<le> v"
    and ne: "y \<noteq> a" "y \<noteq> b" by (auto simp: harmless_def)
  from assms(1) have t: "tracks s0 s" and o: "owned_by s0 s b a"
    and w: "\<not> at_war s a b" "\<not> at_war s b a"
      "war_score_of s a b = None" "war_score_of s b a = None"
    by (simp_all add: forced_post_def)
  have "tracks s0 (auto_peace_pair s x e)" using t by (rule tracks_pair)
  moreover have "owned_by s0 (auto_peace_pair s x e) b a"
    using t o by (rule pair_owned) (simp add: e ne)
  ultimately show ?thesis
    using w by (simp add: forced_post_def e pair_war_score [OF t yv assms(3)]
        pair_at_war [OF t yv assms(3)])
qed

lemma known_enemy:
  assumes "tracks s0 s" and "war_score_of s a b = Some sc"
  shows "get_country s a \<noteq> None" and "get_country s b \<noteq> None"
proof -
  from assms(2) obtain c where c: "get_country s a = Some c" "map_of (war_scores c) b = Some sc"
    by (auto simp: war_score_of_def split: option.splits)
  then show "get_country s a \<noteq> None" by simp
  from assms(1) c(1) have "war_lists_ok c" "\<forall>e \<in> set (at_war_with c). get_country s e \<noteq> None"
    unfolding tracks_def war_inv_def by blast+
  moreover from c(2) have "b \<in> fst ` set (war_scores c)"
    by (metis map_of_SomeD fst_conv image_eqI)
  ultimately show "get_country s b \<noteq> None"
    by (auto simp: war_lists_ok_def)
qed

lemma decisive_step:
  assumes "forced_pre s0 a b s" and "100 \<le> v"
  shows "forced_post s0 a b (auto_peace_pair s a (b, v))"
proof -
  from assms(1) obtain sc where t: "tracks s0 s" and o: "owned_by s0 s b b"
    and sc: "war_score_of s a b = Some sc"
    by (auto simp: forced_pre_def)
  note k = known_enemy [OF t sc]
  from t have wf: "\<forall>k p. get_province s k = Some p \<longrightarrow> province_id p = k"
    by (simp add: tracks_def)
  have "tracks s0 (auto_peace_pair s a (b, v))" using t by (rule tracks_pair)
  moreover have "owned_by s0 (auto_peace_pair s a (b, v)) b a"
    unfolding owned_by_def
  proof (intro allI impI)
    fix k p assume "get_province s0 k = Some p" "owner p = Some b"
    with o obtain p' where "get_province s k = Some p'" "owner p' = Some b"
      unfolding owned_by_def by fastforce
    then show "map_option owner (get_province (auto_peace_pair s a (b, v)) k) = Some (Some a)"
      by (simp add: auto_peace_pair_provinces [OF k(2) assms(2) wf] transfer_def)
  qed
  ultimately show ?thesis
    by (simp add: forced_post_def pair_war_score [OF t k(2) assms(2) k(1)]
        pair_at_war [OF t k(2) assms(2) k(1)])
qed

lemma pair_known:
  "get_country (auto_peace_pair s x e) k \<noteq> None \<longleftrightarrow> get_country s k \<noteq> None"
proof (cases "get_country s (fst e) = None \<or> snd e < 100")
  case True
  then show ?thesis using pair_noop [of s "fst e" "snd e" x] by simp
next
  case False
  then have "get_country (auto_peace_pair s x (fst e, snd e)) = get_country (make_peace s x (fst e))"
    by (intro pair_get_country) auto
  then show ?thesis by (auto simp: get_country_make_peace)
qed

lemma pre_fold:
  assumes "forced_pre s0 a b s" and "\<forall>e \<in> set l. harmless a b e" and "get_country s x \<noteq> None"
  shows "forced_pre s0 a b (foldl (\<lambda>s e. auto_peace_pair s x e) s l)"
  using assms
proof (induction l arbitrary: s)
  case Nil
  then show ?case by simp
next
  case (Cons e l)
  have "forced_pre s0 a b (auto_peace_pair s x e)"
    using Cons.prems by (intro pre_step) auto
  moreover have "get_country (auto_peace_pair s x e) x \<noteq> None"
    using Cons.prems(3) pair_known [of s x e x] by blast
  ultimately show ?case using Cons.prems(2) by (simp add: Cons.IH)
qed

lemma post_fold:
  assumes "forced_post s0 a b s" and "\<forall>e \<in> set l. harmless a b e" and "get_country s x \<noteq> None"
  shows "forced_post s0 a b (foldl (\<lambda>s e. auto_peace_pair s x e) s l)"
  using assms
proof (induction l arbitrary: s)
  case Nil
  then show ?case by simp
next
  case (Cons e l)
  have "forced_post s0 a b (auto_peace_pair s x e)"
    using Cons.prems by (intro post_step) auto
  moreover have "get_country (auto_peace_pair s x e) x \<noteq> None"
    using Cons.prems(3) pair_known [of s x e x] by blast
  ultimately show ?case using Cons.prems(2) by (simp add: Cons.IH)
qed

lemma fold_known:
  "get_country (foldl (\<lambda>s e. auto_peace_pair s x e) s l) k \<noteq> None \<longleftrightarrow> get_country s k \<noteq> None"
proof (induction l arbitrary: s)
  case Nil
  show ?case by simp
next
  case (Cons e l)
  show ?case using Cons.IH [of "auto_peace_pair s x e"] pair_known [of s x e k] by simp
qed

lemma visited_country:
  assumes "tracks s0 s" and "get_country s k = Some c"
  obtains c0 where "get_country s0 k = Some c0" "code c = k"
    "distinct (map fst (war_scores c))" "set (war_scores c) \<subseteq> set (war_scores c0)"
proof -
  from assms(1) have "rel_option (\<lambda>c0 c. code c = k \<and> distinct (map fst (war_scores c))
        \<and> set (war_scores c) \<subseteq> set (war_scores c0)) (get_country s0 k) (get_country s k)"
    by (simp add: tracks_def)
  with assms(2) that show ?thesis by (auto simp: option_rel_Some2)
qed

lemma country_pre:
  assumes "forced_pre s0 a b s" and "unchallenged s0 a b" and "k \<noteq> a"
  shows "forced_pre s0 a b (auto_peace_country s k)"
proof (cases "get_country s k")
  case None
  with assms(1) show ?thesis by (simp add: auto_peace_country_def)
next
  case (Some c)
  from assms(1) have t: "tracks s0 s" by (simp add: forced_pre_def)
  from t Some obtain c0 where c0: "get_country s0 k = Some c0" "code c = k"
    "set (war_scores c) \<subseteq> set (war_scores c0)" by (rule visited_country)
  have h: "\<forall>e \<in> set (war_scores c). harmless a b e"
    using assms(2,3) c0(1,3) unfolding unchallenged_def harmless_def by fastforce
  show ?thesis
    using pre_fold [OF assms(1) h, of k] Some c0(2) by (simp add: auto_peace_country_def)
qed

lemma country_post:
  assumes "forced_post s0 a b s" and "unchallenged s0 a b" and "k \<noteq> a"
  shows "forced_post s0 a b (auto_peace_country s k)"
proof (cases "get_country s k")
  case None
  with assms(1) show ?thesis by (simp add: auto_peace_country_def)
next
  case (Some c)
  from assms(1) have t: "tracks s0 s" by (simp add: forced_post_def)
  from t Some obtain c0 where c0: "get_country s0 k = Some c0" "code c = k"
    "set (war_scores c) \<subseteq> set (war_scores c0)" by (rule visited_country)
  have h: "\<forall>e \<in> set (war_scores c). harmless a b e"
    using assms(2,3) c0(1,3) unfolding unchallenged_def harmless_def by fastforce
  show ?thesis
    using post_fold [OF assms(1) h, of k] Some c0(2) by (simp add: auto_peace_country_def)
qed

lemma country_decisive:
  assumes "forced_pre s0 a b s" and "unchallenged s0 a b"
  shows "forced_post s0 a b (auto_peace_country s a)"
proof -
  from assms(1) obtain sc where t: "tracks s0 s"
    and sc: "war_score_of s a b = Some sc" "100 \<le> sc"
    by (auto simp: forced_pre_def)
  from sc(1) obtain c where c: "get_country s a = Some c" "map_of (war_scores c) b = Some sc"
    by (auto simp: war_score_of_def split: option.splits)
  from t c(1) obtain c0 where c0: "get_country s0 a = Some c0" "code c = a"
    "distinct (map fst (war_scores c))" "set (war_scores c) \<subseteq> set (war_scores c0)"
    by (rule visited_country)
  from c(2) have "(b, sc) \<in> set (war_scores c)" by (rule map_of_SomeD)
  then obtain l1 l2 where l: "war_scores c = l1 @ (b, sc) # l2"
    by (auto dest: split_list)
  from c0(3) have nb: "b \<notin> fst ` set l1" "b \<notin> fst ` set l2"
    unfolding l by auto
  have na: "fst e \<noteq> a" if "e \<in> set (war_scores c)" "100 \<le> snd e" for e
  proof -
    from that(1) c0(4) have "(fst e, snd e) \<in> set (war_scores c0)" by auto
    with assms(2) c0(1) that(2) show ?thesis unfolding unchallenged_def by blast
  qed
  have h1: "\<forall>e \<in> set l1. harmless a b e"
    unfolding harmless_def
  proof (intro ballI impI conjI)
    fix e assume e: "e \<in> set l1" "100 \<le> snd e"
    then show "fst e \<noteq> a" using na [of e] by (simp add: l)
    from e(1) nb(1) show "fst e \<noteq> b" by force
  qed
  have h2: "\<forall>e \<in> set l2. harmless a b e"
    unfolding harmless_def
  proof (intro ballI impI conjI)
    fix e assume e: "e \<in> set l2" "100 \<le> snd e"
    then show "fst e \<noteq> a" using na [of e] by (simp add: l)
    from e(1) nb(2) show "fst e \<noteq> b" by force
  qed
  let ?f = "\<lambda>s e. auto_peace_pair s a e"
  have ka: "get_country s a \<noteq> None" using c(1) by simp
  have p1: "forced_pre s0 a b (foldl ?f s l1)"
    using assms(1) h1 ka by (rule pre_fold)
  have k1: "get_country (foldl ?f s l1) a \<noteq> None"
    using ka fold_known [of a s l1 a] by blast
  have p2: "forced_post s0 a b (auto_peace_pair (foldl ?f s l1) a (b, sc))"
    using p1 sc(2) by (rule decisive_step)
  have k2: "get_country (auto_peace_pair (foldl ?f s l1) a (b, sc)) a \<noteq> None"
    using k1 pair_known [of "foldl ?f s l1" a "(b, sc)" a] by blast
  have "forced_post s0 a b (foldl ?f (auto_peace_pair (foldl ?f s l1) a (b, sc)) l2)"
    using p2 h2 k2 by (rule post_fold)
  then show ?thesis
    by (simp add: auto_peace_country_def c(1) c0(2) l)
qed

lemma keys_pre:
  assumes "forced_pre s0 a b s" and "unchallenged s0 a b" and "a \<notin> set ks"
  shows "forced_pre s0 a b (foldl auto_peace_country s ks)"
  using assms
proof (induction ks arbitrary: s)
  case Nil
  then show ?case by simp
next
  case (Cons k ks)
  then have "forced_pre s0 a b (auto_peace_country s k)"
    by (intro country_pre) auto
  with Cons show ?case by simp
qed

lemma keys_post:
  assumes "forced_post s0 a b s" and "unchallenged s0 a b" and "a \<notin> set ks"
  shows "forced_post s0 a b (foldl auto_peace_country s ks)"
  using assms
proof (induction ks arbitrary: s)
  case Nil
  then show ?case by simp
next
  case (Cons k ks)
  then have "forced_post s0 a b (auto_peace_country s k)"
    by (intro country_post) auto
  with Cons show ?case by simp
qed

text \<open>
  C5 (amended). Let A's war score against B be at least 100, let no country hold a war
  score of at least 100 against A, and none but A one against B. Then after one invocation
  of \<open>auto_peace_at_100\<close> every province that B owned is owned by A, A and B are no
  longer in each other's at-war lists, and both war-score entries are deleted; no proposal
  or acceptance is involved. Other wars may be settled in the same invocation. (The state
  is one the game can be in: the invariants of the war state hold, countries are
  registered under their codes and provinces under their ids.)
\<close>

theorem auto_peace_annexes_all:
  assumes inv: "war_inv s"
    and reg: "\<forall>k c. get_country s k = Some c \<longrightarrow> code c = k \<and> distinct (map fst (war_scores c))"
    and keys: "distinct (map fst (countries s))"
    and wf: "\<forall>k p. get_province s k = Some p \<longrightarrow> province_id p = k"
    and sc: "war_score_of s a b = Some sc" "100 \<le> sc"
    and un: "unchallenged s a b"
  shows "(\<forall>k p. get_province s k = Some p \<longrightarrow> owner p = Some b \<longrightarrow>
            map_option owner (get_province (auto_peace_at_100 s) k) = Some (Some a))
     \<and> \<not> at_war (auto_peace_at_100 s) a b \<and> \<not> at_war (auto_peace_at_100 s) b a
     \<and> war_score_of (auto_peace_at_100 s) a b = None
     \<and> war_score_of (auto_peace_at_100 s) b a = None"
proof -
  have "rel_option (\<lambda>c0 c. code c = k \<and> distinct (map fst (war_scores c))
          \<and> set (war_scores c) \<subseteq> set (war_scores c0)) (get_country s k) (get_country s k)" for k
    using reg by (cases "get_country s k") auto
  with inv wf have "tracks s s" by (simp add: tracks_def)
  with sc have pre: "forced_pre s a b s"
    by (auto simp: forced_pre_def owned_by_def)
  from sc(1) obtain ca where "get_country s a = Some ca"
    by (auto simp: war_score_of_def split: option.splits)
  then have "(a, ca) \<in> set (countries s)"
    by (simp add: get_country_def map_of_SomeD)
  then have "a \<in> set (map fst (countries s))" by force
  then obtain ks1 ks2 where ks: "map fst (countries s) = ks1 @ a # ks2"
    by (auto dest: split_list)
  with keys have na: "a \<notin> set ks1" "a \<notin> set ks2" by auto
  have "forced_pre s a b (foldl auto_peace_country s ks1)"
    using pre un na(1) by (rule keys_pre)
  then have "forced_post s a b (auto_peace_country (foldl auto_peace_country s ks1) a)"
    using un by (rule country_decisive)
  then have "forced_post s a b
      (foldl auto_peace_country (auto_peace_country (foldl auto_peace_country s ks1) a) ks2)"
    using un na(2) by (rule keys_post)
  then have "forced_post s a b (auto_peace_at_100 s)"
    by (simp add: auto_peace_at_100_def ks)
  then show ?thesis
    by (simp add: forced_post_def owned_by_def)
qed

theorem auto_peace_annexes_all_witness:
  "war_inv (war_with_scores 100 0)
   \<and> war_score_of (war_with_scores 100 0) ''GER'' ''FRA'' = Some 100
   \<and> unchallenged (war_with_scores 100 0) ''GER'' ''FRA''
   \<and> map (\<lambda>k. map_option owner (get_province (war_with_scores 100 0) k)) [4, 5, 6]
       = [Some (Some ''FRA''), Some (Some ''FRA''), Some (Some ''FRA'')]
   \<and> map (\<lambda>k. map_option owner (get_province (auto_peace_at_100 (war_with_scores 100 0)) k))
        [4, 5, 6]
       = [Some (Some ''GER''), Some (Some ''GER''), Some (Some ''GER'')]
   \<and> \<not> at_war (auto_peace_at_100 (war_with_scores 100 0)) ''GER'' ''FRA''
   \<and> \<not> at_war (auto_peace_at_100 (war_with_scores 100 0)) ''FRA'' ''GER''
   \<and> war_score_of (auto_peace_at_100 (war_with_scores 100 0)) ''GER'' ''FRA'' = None
   \<and> war_score_of (auto_peace_at_100 (war_with_scores 100 0)) ''FRA'' ''GER'' = None"
proof -
  let ?s = "war_with_scores 100 0"
  have reg: "\<forall>k c. get_country ?s k = Some c \<longrightarrow>
               code c = k \<and> distinct (map fst (war_scores c))"
    by (auto simp: war_with_scores_def new_game_def get_country_def new_country_def
        split: if_splits)
  have keys: "distinct (map fst (countries ?s))"
    by (simp add: war_with_scores_def new_game_def)
  have wf: "\<forall>k p. get_province ?s k = Some p \<longrightarrow> province_id p = k"
    by (auto simp: war_with_scores_def new_game_def get_province_def new_province_def
        split: if_splits)
  have sc: "war_score_of ?s ''GER'' ''FRA'' = Some 100" "(100::int) \<le> 100"
    by (simp_all add: war_with_scores_def new_game_def war_score_of_def get_country_def)
  have un: "unchallenged ?s ''GER'' ''FRA''"
    unfolding unchallenged_def
    by (auto simp: war_with_scores_def new_game_def get_country_def new_country_def
        split: if_splits)
  have p: "get_province ?s 4 = Some (new_province 4 ''plains'' 5 5000 (Some ''FRA''))"
    "get_province ?s 5 = Some (new_province 5 ''hills'' 3 3000 (Some ''FRA''))"
    "get_province ?s 6 = Some (new_province 6 ''plains'' 3 3000 (Some ''FRA''))"
    by (simp_all add: war_with_scores_def new_game_def get_province_def)
  have o: "owner (new_province i t d n (Some ''FRA'')) = Some ''FRA''" for i t d n
    by (simp add: new_province_def)
  show ?thesis
    using auto_peace_annexes_all [OF war_with_scores_inv reg keys wf sc un] p sc(1) un
    by (simp add: war_with_scores_inv o)
qed

section \<open>Properties of peace treaties\<close>

lemma pending_put_country [simp]:
  "pending_peace_treaties (put_country s k c) = pending_peace_treaties s"
  by (simp add: put_country_def)

lemma pending_modify_country [simp]:
  "pending_peace_treaties (modify_country s k f) = pending_peace_treaties s"
  by (simp add: modify_country_def split: option.splits)

lemma pending_modify_province [simp]:
  "pending_peace_treaties (modify_province s k f) = pending_peace_treaties s"
  by (simp add: modify_province_def split: option.splits)

lemma pending_make_peace [simp]:
  "pending_peace_treaties (make_peace s a b) = pending_peace_treaties s"
  by (simp add: make_peace_def split: option.splits)

lemma pending_execute_demand [simp]:
  "pending_peace_treaties (execute_demand s w l d) = pending_peace_treaties s"
  by (simp add: execute_demand_def Let_def split: option.splits prod.splits)

lemma pending_execute_demands_list [simp]:
  "pending_peace_treaties (execute_demands_list s w l ds) = pending_peace_treaties s"
  unfolding execute_demands_list_def
  by (induction ds arbitrary: s) simp_all

lemma ger_fra_war_scored_eval:
  "ger_fra_war_scored =
     \<lparr>countries =
        [(''GER'', (new_country ''GER'' 1 2000 20000)
                     \<lparr>at_war_with := [''FRA''], war_scores := [(''FRA'', 50)]\<rparr>),
         (''FRA'', (new_country ''FRA'' 4 1800 18000)
                     \<lparr>at_war_with := [''GER''], war_scores := [(''GER'', 0)]\<rparr>)],
      provinces = [(1, new_province 1 ''plains'' 5 5000 (Some ''GER'')),
                   (4, new_province 4 ''plains'' 5 5000 (Some ''FRA''))],
      templates = [], units = [], active_battles = [],
      combat_time_accumulator = 0, economy_time_accumulator = 0,
      pending_peace_treaties = []\<rparr>"
  by (simp add: ger_fra_war_scored_def ger_fra_war_def two_countries_def declare_war_def
      new_game_def new_country_def modify_country_def get_country_def put_country_def
      country_declare_war_def)

lemma paris_demands_eval:
  "paris_demands =
     [\<lparr>demand_type = ''annex_province'', target_data = 4, war_score_cost = 15\<rparr>,
      \<lparr>demand_type = ''war_reparations'', target_data = 300, war_score_cost = 5\<rparr>]"
  by (simp add: paris_demands_def create_peace_demand_def calculate_demand_cost_def
      get_province_num_def get_province_def ger_fra_war_scored_eval new_province_def py_int_def)

lemma treaty_pending_eval:
  "treaty_pending = ger_fra_war_scored\<lparr>pending_peace_treaties := [paris_treaty]\<rparr>"
  by (simp add: treaty_pending_def propose_peace_treaty_def paris_treaty_def Let_def
      get_country_def ger_fra_war_scored_eval paris_demands_eval)

lemma accept_paris_eval:
  "map (\<lambda>(k, p). (k, owner p)) (provinces (fst (accept_peace_treaty treaty_pending paris_treaty)))
     = [(1, Some ''GER''), (4, Some ''GER'')]
   \<and> map (\<lambda>(k, c). (k, money c, at_war_with c, war_scores c))
        (countries (fst (accept_peace_treaty treaty_pending paris_treaty)))
     = [(''GER'', 2300, [], []), (''FRA'', 1500, [], [])]"
  by (simp add: accept_peace_treaty_def treaty_pending_eval ger_fra_war_scored_eval
      paris_treaty_def paris_demands_eval execute_demand_def get_province_num_def
      get_province_def modify_province_def new_province_def new_country_def get_country_def
      modify_country_def put_country_def spend_money_def add_money_def make_peace_def
      country_make_peace_def Let_def)



section \<open>Properties of the military update\<close>

lemma update_loop_eq:
  "\<forall>u \<in> set kept. \<not> is_destroyed u \<Longrightarrow>
   update_loop kept us = kept @ filter (\<lambda>u. \<not> is_destroyed u) (map visit us)"
proof (induction us arbitrary: kept)
  case Nil
  show ?case by simp
next
  case (Cons u us)
  show ?case
  proof (cases "is_destroyed (visit u)")
    case True
    with Cons.prems have "visit u \<notin> set kept" by blast
    then have "remove1 (visit u) (kept @ [visit u]) = kept"
      by (simp add: remove1_append remove1_idem)
    with True Cons.IH [OF Cons.prems] show ?thesis
      by (simp add: visit_def Let_def)
  next
    case False
    with Cons.prems have "\<forall>x \<in> set (kept @ [visit u]). \<not> is_destroyed x" by simp
    from Cons.IH [OF this] False show ?thesis
      by (simp add: visit_def Let_def)
  qed
qed

lemma military_update_units:
  "units (military_update s dt) = filter (\<lambda>u. \<not> is_destroyed u) (map visit (units s))"
  by (simp add: military_update_def update_loop_eq)

text \<open>
  C6 (evaluation at the failing input). A division that was ordered to province 0 is moving
  with its target set, but the update leaves it where it is, still moving and with the
  target still set: the loop tests the target by its truth value, and 0 is false. The
  division ordered to province 1 is moved and its flag and target are cleared.
\<close>

theorem military_update_target_zero:
  "map (\<lambda>u. (unit_id u, location u, is_moving u, move_target u)) (units ordered_to_zero)
     = [(1, 1, True, Some 0), (2, 1, True, Some 1)]
   \<and> map (\<lambda>u. (unit_id u, location u, is_moving u, move_target u))
        (units (military_update ordered_to_zero 1))
     = [(1, 1, True, Some 0), (2, 1, False, None)]"
  by (simp add: military_update_units ordered_to_zero_def new_game_def new_unit_def
      order_move_def visit_def truthy_def move_unit_def is_destroyed_def)

section \<open>Properties of damage\<close>

lemma py_int_bounds:
  "0 \<le> x \<Longrightarrow> real_of_int (py_int x) \<le> x \<and> x < real_of_int (py_int x) + 1 \<and> 0 \<le> py_int x"
  by (simp add: py_int_def)

text \<open>
  C8 (as stated, refuted). A division with 100 hit points and organization 100 that takes a
  damage share of 3 ends with 99 and 99: each is decremented by \<open>int(1.5) = 1\<close>, not
  by 1.5.
\<close>

theorem take_damage_half_counterexample:
  "take_damage (new_unit 1 ''infantry'' ''GER'' 1 100 100) 3 infantry
     = Inr ((new_unit 1 ''infantry'' ''GER'' 1 100 100)
             \<lparr>current_hp := 99, organization := 99, strength := 99 / 100\<rparr>)
   \<and> real_of_int 99 \<noteq> real_of_int 100 - 3 * 0.5"
proof -
  have p: "py_int (3 / 2) = 1" by (simp add: py_int_def)
  show ?thesis
    by (simp add: take_damage_def Let_def p new_unit_def infantry_def)
qed

text \<open>
  C8 (amended). For a template with \<open>max_hp \<noteq> 0\<close>, a unit that receives a damage
  share d has its hit points and its organization each decremented by \<open>d \<times> 0.5\<close>
  truncated to an integer (for \<open>d \<ge> 0\<close> the largest integer not above
  \<open>d \<times> 0.5\<close>), each floored at 0; its strength is then the new hit points divided by
  the template's \<open>max_hp\<close>; nothing else about the unit changes.
\<close>

theorem take_damage_truncates:
  assumes "max_hp t \<noteq> 0"
  shows "\<exists>u'. take_damage u d t = Inr u'
     \<and> current_hp u' = max 0 (current_hp u - py_int (d * 0.5))
     \<and> organization u' = max 0 (organization u - py_int (d * 0.5))
     \<and> strength u' = real_of_int (current_hp u') / real_of_int (max_hp t)
     \<and> u' = u\<lparr>current_hp := current_hp u', organization := organization u',
               strength := strength u'\<rparr>
     \<and> (0 \<le> d \<longrightarrow> real_of_int (py_int (d * 0.5)) \<le> d * 0.5
                   \<and> d * 0.5 < real_of_int (py_int (d * 0.5)) + 1)"
  using assms py_int_bounds [of "d * 0.5"]
  by (simp add: take_damage_def Let_def)

theorem take_damage_truncates_witness:
  "max_hp infantry \<noteq> 0
   \<and> take_damage (new_unit 1 ''infantry'' ''GER'' 1 100 100) 7 infantry
       = Inr ((new_unit 1 ''infantry'' ''GER'' 1 100 100)
               \<lparr>current_hp := 97, organization := 97, strength := 97 / 100\<rparr>)"
proof -
  have m: "max_hp infantry \<noteq> 0" by (simp add: infantry_def)
  have p: "py_int (7 / 2) = 3" by (simp add: py_int_def)
  from take_damage_truncates [OF m, of "new_unit 1 ''infantry'' ''GER'' 1 100 100" 7]
  obtain u' where u: "take_damage (new_unit 1 ''infantry'' ''GER'' 1 100 100) 7 infantry = Inr u'"
    "current_hp u' = max 0 (current_hp (new_unit 1 ''infantry'' ''GER'' 1 100 100) - py_int (7 * 0.5))"
    "organization u' = max 0 (organization (new_unit 1 ''infantry'' ''GER'' 1 100 100) - py_int (7 * 0.5))"
    "strength u' = real_of_int (current_hp u') / real_of_int (max_hp infantry)"
    "u' = (new_unit 1 ''infantry'' ''GER'' 1 100 100)\<lparr>current_hp := current_hp u',
        organization := organization u', strength := strength u'\<rparr>"
    by blast
  have "current_hp u' = 97" "organization u' = 97" "strength u' = 97 / 100"
    using u(2,3,4) by (simp_all add: p new_unit_def infantry_def)
  with u(1,5) m show ?thesis by simp
qed

section \<open>Properties of the battle list\<close>














lemma end_battle_raises: "end_battle s b ra rd = Inl SyntaxError"
  by (simp add: end_battle_def load_combat_def)

lemma resolve_battle_tick_raises: "resolve_battle_tick s b al dl = Inl SyntaxError"
  by (simp add: resolve_battle_tick_def load_combat_def)

lemma combat_update_raises: "combat_update s dt luck = Inl SyntaxError"
  by (simp add: combat_update_def load_combat_def)



lemma detect_fought_eval: "detect_battles paris_fought = paris_fought"
  by (simp add: detect_battles_def detect_in_province_def paris_fought_def paris_contested_def
      war_with_scores_def new_game_def new_province_def new_country_def new_unit_def
      get_units_in_province_def group_by_owner_def check_pair_def get_country_def
      is_at_war_with_def has_battle_in_province_def start_battle_def Let_def paris_battle_def)





section \<open>Properties of the end of a battle\<close>

lemma paris_held_eval:
  "get_province (paris_held f) 4 = Some (new_province 4 ''plains'' 5 5000 (Some ''FRA''))"
  "war_score_of (paris_held f) ''FRA'' ''GER'' = Some f"
  "active_battles (paris_held f) = [paris_battle]"
  by (simp_all add: paris_held_def paris_contested_def war_with_scores_def new_game_def
      get_province_def war_score_of_def get_country_def)


text \<open>
  C4 (the code does not do it). France holds Paris with a war score of 10 against Germany;
  the battle for Paris is listed, no German division is left there and one French division
  is. The claim wants the battle ended with Paris still French and the score at 12. The
  branch that would award the two points is the statement that does not parse, so the module
  is never loaded: ending the battle, the tick that would end it and the update that would
  run the tick all raise \<open>SyntaxError\<close>, and no state with a score of 12 is returned.
\<close>

theorem end_battle_syntax_error:
  "war_score_of (paris_held 10) ''FRA'' ''GER'' = Some 10
   \<and> map_option owner (get_province (paris_held 10) 4) = Some (Some ''FRA'')
   \<and> active_battles (paris_held 10) = [paris_battle]
   \<and> units_in_province_by_owner (paris_held 10) 4 ''GER'' = []
   \<and> units_in_province_by_owner (paris_held 10) 4 ''FRA'' = [0]
   \<and> load_combat = Inl SyntaxError
   \<and> end_battle (paris_held 10) paris_battle [] [new_unit 2 ''infantry'' ''FRA'' 4 97 97]
       = Inl SyntaxError
   \<and> resolve_battle_tick (paris_held 10) paris_battle 1 1 = Inl SyntaxError
   \<and> combat_update (paris_held 10) 1 (\<lambda>k. (1, 1)) = Inl SyntaxError"
  by (simp add: paris_held_eval new_province_def end_battle_raises resolve_battle_tick_raises
      combat_update_raises load_combat_def)
     (simp add: units_in_province_by_owner_def paris_held_def new_unit_def)

section \<open>The three outcomes of a purchase\<close>

text \<open>
  What \<open>purchase_unit\<close> does in general: both resources are debited when both
  suffice, nothing changes when the money does not suffice, and the money alone is debited
  when it suffices and the manpower does not.
\<close>

lemma purchase_unit_affordable:
  assumes "get_country s k = Some c" and "money c \<ge> unit_cost" and "manpower c \<ge> mp_cost"
  shows "purchase_unit s k unit_cost mp_cost =
           (put_country s k (c\<lparr>money := money c - unit_cost,
                                manpower := manpower c - mp_cost\<rparr>), True)"
  using assms by (simp add: purchase_unit_def spend_money_def recruit_manpower_def)

lemma purchase_unit_no_money:
  assumes "get_country s k = Some c" and "money c < unit_cost"
  shows "snd (purchase_unit s k unit_cost mp_cost) = False
     \<and> get_country (fst (purchase_unit s k unit_cost mp_cost)) k = Some c"
  using assms by (simp add: purchase_unit_def spend_money_def get_country_put)

lemma purchase_unit_no_manpower:
  assumes "get_country s k = Some c" and "money c \<ge> unit_cost" and "manpower c < mp_cost"
  shows "snd (purchase_unit s k unit_cost mp_cost) = False
     \<and> get_country (fst (purchase_unit s k unit_cost mp_cost)) k
         = Some (c\<lparr>money := money c - unit_cost\<rparr>)"
  using assms
  by (simp add: purchase_unit_def spend_money_def recruit_manpower_def get_country_put)

end
